theory Spec2Isabelle
  imports Complex_Main
begin

section \<open>JavaScript values used by the plugin\<close>

text \<open>
  A setting that holds text is \<open>undefined\<close> or a string, a numeric setting is
  \<open>undefined\<close> or a number. JavaScript tests them by truthiness: \<open>undefined\<close>, the
  empty string and \<open>0\<close> are falsy.
\<close>

definition truthy_str :: "string option \<Rightarrow> bool" where
  "truthy_str v = (case v of None \<Rightarrow> False | Some s \<Rightarrow> s \<noteq> [])"

definition truthy_num :: "int option \<Rightarrow> bool" where
  "truthy_num v = (case v of None \<Rightarrow> False | Some n \<Rightarrow> n \<noteq> 0)"

text \<open>\<open>a && b\<close> on two text settings: the left operand when it is falsy, else the right.\<close>

definition js_and :: "string option \<Rightarrow> string option \<Rightarrow> string option" where
  "js_and a b = (if truthy_str a then b else a)"

text \<open>\<open>String.prototype.split\<close> with a one-character separator.\<close>

fun split_on :: "char \<Rightarrow> string \<Rightarrow> string list" where
  "split_on sep [] = [[]]"
| "split_on sep (x # xs) =
     (if x = sep then [] # split_on sep xs
      else (case split_on sep xs of [] \<Rightarrow> [[x]] | y # ys \<Rightarrow> (x # y) # ys))"

text \<open>An exception: \<open>new Error(msg)\<close>, or the \<open>TypeError\<close> the runtime raises.\<close>

datatype error = Error string | TypeError string

fun error_toString :: "error \<Rightarrow> string" where
  "error_toString (Error m) = ''Error: '' @ m"
| "error_toString (TypeError m) = ''TypeError: '' @ m"

section \<open>Settings and plugin state\<close>

datatype ForwardingMode = UPNP | RouterForward | CustomDomain | Disabled

text \<open>The persisted settings, \<open>this.storageSettings.values\<close>.\<close>

record settings =
  token_info :: "string option"
  lastPersistedRegistrationId :: "string option"
  registrationSecret :: string
  serverId :: string
  serverName :: string
  forwardingMode :: ForwardingMode
  hostname :: "string option"
  duckDnsToken :: "string option"
  duckDnsHostname :: "string option"
  duckDnsCertValid :: bool
  upnpPort :: "int option"
  lastPersistedUpnpPort :: "int option"
  lastPersistedIp :: "string option"
  cloudflaredTunnelToken :: "string option"
  connectHomeScryptedApp :: bool

text \<open>
  The authority object \<open>getAuthority\<close> returns: \<open>{}\<close>, \<open>{upnp_port, port}\<close> or
  \<open>{upnp_port, port, hostname}\<close>. A missing key is \<open>None\<close>.
\<close>

record authority =
  upnp_port :: "int option"
  port :: "int option"
  authority_hostname :: "string option"

definition empty_authority :: authority where
  "empty_authority = \<lparr>upnp_port = None, port = None, authority_hostname = None\<rparr>"

text \<open>What the plugin sends out: the relay's REST endpoints and the router's UPnP service.\<close>

record registration_query =
  q_authority :: authority
  registration_id :: string
  server_id :: string
  server_name :: string
  sender_id :: string
  registration_secret :: string
  force :: string

datatype effect =
    RelayRegister registration_query string
  | RelayIp
  | RelayScope string string int string
  | DuckDnsUpdate string string
  | UpnpPortMapping int string "int option" int

text \<open>
  The \<open>ScryptedCloud\<close> instance: its settings, the tunnel URL, the whitelist cache
  (a \<open>Map\<close> from local path to signed URL), \<open>this.securePort\<close>, the alerts posted with
  \<open>this.log.a\<close> and the outbound calls made so far, both oldest first.
\<close>

record cloud =
  storage :: settings
  cloudflareTunnel :: "string option"
  whitelisted :: "string \<Rightarrow> string option"
  upnpStatus :: string
  this_securePort :: "int option"
  alerts :: "string list"
  effects :: "effect list"

definition log_a :: "string \<Rightarrow> cloud \<Rightarrow> cloud" where
  "log_a msg c = c\<lparr>alerts := alerts c @ [msg]\<rparr>"

definition emit :: "effect \<Rightarrow> cloud \<Rightarrow> cloud" where
  "emit e c = c\<lparr>effects := effects c @ [e]\<rparr>"

section \<open>getAuthority\<close>

text \<open>
  The two constants \<open>upnp_port\<close> and \<open>hostname\<close> that \<open>getAuthority\<close> computes once the
  mode is not Disabled.
\<close>

definition computed_port :: "settings \<Rightarrow> int option" where
  "computed_port v = (if forwardingMode v = CustomDomain then Some 443 else upnpPort v)"

definition computed_hostname :: "settings \<Rightarrow> string option" where
  "computed_hostname v =
     (if forwardingMode v = CustomDomain then hostname v
      else js_and (duckDnsToken v) (duckDnsHostname v))"

definition getAuthority :: "cloud \<Rightarrow> (error + authority) \<times> cloud" where
  "getAuthority c =
     (let v = storage c in
      if forwardingMode v = Disabled then (Inr empty_authority, c)
      else
        let p = computed_port v; h = computed_hostname v in
        if p = Some 443 \<and> \<not> truthy_str h then
          let msg = (if forwardingMode v = CustomDomain
                     then ''Hostname is required for port Custom Domain setup.''
                     else ''Port 443 requires Custom Domain configuration.'')
          in (Inl (Error msg), log_a msg c)
        else if \<not> truthy_str h then
          (Inr \<lparr>upnp_port = p, port = p, authority_hostname = None\<rparr>, c)
        else
          (Inr \<lparr>upnp_port = p, port = p, authority_hostname = h\<rparr>, c))"

section \<open>The environment\<close>

text \<open>
  Everything the plugin reads from outside during one run: the relay host (the module
  constant \<open>SCRYPTED_SERVER\<close>), the push manager's registration id, the value of
  \<open>Math.random()\<close>, the server's local addresses, whether the router refused the UPnP
  mapping, and what each HTTP call returns (\<open>Inl\<close> when \<open>httpFetch\<close> throws). The
  platform's URL parser and the repository's \<open>qsstringify\<close> are parameters too:
  \<open>URL_host u\<close> is \<open>new URL(u).host\<close> and \<open>URL_pathname u\<close> is \<open>new URL(u).pathname\<close>,
  \<open>None\<close> when the constructor throws; \<open>URL_rehost u base h\<close> is the text of
  \<open>new URL(u, base)\<close> once its host is set to \<open>h\<close> and its port cleared;
  \<open>URLSearchParams_get q k\<close> is \<open>new URLSearchParams(q).get(k)\<close>. The value of
  \<open>getCloudMessagePath()\<close> comes from the endpoint manager. \<open>tls_connect port host\<close>
  is what the platform's \<open>tls.connect(port, host, options)\<close> does before it returns:
  \<open>None\<close> when it returns a socket, the error when it throws (it throws on a missing
  port and on a port that is not a valid one; whether the connection is established
  later is not part of it).
\<close>

record register_body =
  body_error :: "string option"
  ip_address :: "string option"

record scope_body =
  userToken :: "string option"
  userTokenSignature :: "string option"

record world =
  SCRYPTED_SERVER :: string
  manager_registrationId :: string
  Math_random :: real
  getLocalAddresses :: "string list option"
  portMapping_err :: bool
  fetch_ip :: "error + string option"
  fetch_duckdns :: "error option"
  fetch_register :: "error + register_body option"
  fetch_scope :: "error + scope_body option"
  URL_host :: "string \<Rightarrow> string option"
  URL_pathname :: "string \<Rightarrow> string option"
  URL_rehost :: "string \<Rightarrow> string \<Rightarrow> string \<Rightarrow> string option"
  URLSearchParams_get :: "string \<Rightarrow> string \<Rightarrow> string option"
  qsstringify :: "(string \<times> string option) list \<Rightarrow> string"
  getCloudMessagePath :: string
  tls_connect :: "string option \<Rightarrow> string \<Rightarrow> error option"

definition DEFAULT_SENDER_ID :: string where
  "DEFAULT_SENDER_ID = ''827888101440''"

text \<open>The getter \<open>cloudflareTunnelHost\<close>: nothing without a tunnel, else the URL's host.\<close>

definition cloudflareTunnelHost :: "world \<Rightarrow> cloud \<Rightarrow> error + string option" where
  "cloudflareTunnelHost w c =
     (if \<not> truthy_str (cloudflareTunnel c) then Inr None
      else case cloudflareTunnel c of
             None \<Rightarrow> Inr None
           | Some t \<Rightarrow> (case URL_host w t of
                         None \<Rightarrow> Inl (TypeError ''Invalid URL'')
                       | Some h \<Rightarrow> Inr (Some h)))"

section \<open>sendRegistrationId\<close>

definition error_body :: "string \<Rightarrow> register_body" where
  "error_body msg = \<lparr>body_error = Some msg, ip_address = None\<rparr>"

text \<open>\<open>body?.error\<close> on a response body that may be missing.\<close>

definition body_error_of :: "register_body option \<Rightarrow> string option" where
  "body_error_of b = (case b of None \<Rightarrow> None | Some r \<Rightarrow> body_error r)"

definition login_alert :: string where
  "login_alert = ''Login to the Scrypted Cloud plugin to reach this server from the cloud, or disable this alert in the Scrypted Cloud plugin Connection settings.''"

text \<open>
  \<open>getAuthority\<close> is called first, outside the \<open>try\<close>: what it throws, the function
  throws. The relay call is the effect \<open>RelayRegister\<close>, with the query object (before
  \<open>qsstringify\<close>) and the bearer token.
\<close>

definition sendRegistrationId ::
    "world \<Rightarrow> string \<Rightarrow> bool \<Rightarrow> cloud \<Rightarrow> (error + register_body option) \<times> cloud" where
  "sendRegistrationId w rid frc c =
     (case getAuthority c of
        (Inl e, c1) \<Rightarrow> (Inl e, c1)
      | (Inr auth, c1) \<Rightarrow>
          let v = storage c1;
              q = \<lparr>q_authority = auth, registration_id = rid, server_id = serverId v,
                   server_name = serverName v, sender_id = DEFAULT_SENDER_ID,
                   registration_secret = registrationSecret v,
                   force = (if frc then ''true'' else [])\<rparr>
          in
          if \<not> connectHomeScryptedApp v then
            (Inr (Some (error_body
               (''Scrypted Cloud connection to '' @ SCRYPTED_SERVER w @ '' is disabled.''))), c1)
          else
            (case token_info v of
               None \<Rightarrow> (Inr (Some (error_body login_alert)), log_a login_alert c1)
             | Some tok \<Rightarrow>
                 if tok = [] then (Inr (Some (error_body login_alert)), log_a login_alert c1)
                 else
                   let c2 = emit (RelayRegister q tok) c1 in
                   (case fetch_register w of
                      Inl e \<Rightarrow> (Inr (Some (error_body (error_toString e))), c2)
                    | Inr body \<Rightarrow>
                        if truthy_str (body_error_of body) then
                          (Inr body, log_a (case body_error_of body of Some m \<Rightarrow> m | None \<Rightarrow> []) c2)
                        else
                          (Inr body,
                           c2\<lparr>storage := (storage c2)
                                \<lparr>lastPersistedRegistrationId := Some rid,
                                 lastPersistedUpnpPort := upnp_port auth\<rparr>\<rparr>))))"

section \<open>updatePortForward\<close>

text \<open>
  The address the server is reached at: the custom domain's hostname, the Duck DNS
  branch (whose certificate step is stubbed and always throws), or the tunnel's host when
  there is a tunnel and else the address the relay saw the request come from.
\<close>

definition resolve_ip :: "world \<Rightarrow> cloud \<Rightarrow> (error + string option) \<times> cloud" where
  "resolve_ip w c =
     (let v = storage c in
      if forwardingMode v = CustomDomain then
        (if \<not> truthy_str (hostname v)
         then (Inl (Error ''Hostname is required for port Custom Domain setup.''), c)
         else (Inr (hostname v), c))
      else if truthy_str (duckDnsHostname v) \<and> truthy_str (duckDnsToken v) then
        (let c1 = emit (DuckDnsUpdate (case duckDnsHostname v of Some d \<Rightarrow> d | None \<Rightarrow> [])
                                      (case duckDnsToken v of Some t \<Rightarrow> t | None \<Rightarrow> [])) c
         in case fetch_duckdns w of
              Some e \<Rightarrow> (Inl (Error ''Duck DNS Error. See Console Logs.''), c1)
            | None \<Rightarrow> (Inl (Error (''Let'' @ [CHR 0x27] @ ''s Encrypt Error. See Console Logs.'')), c1))
      else
        (case cloudflareTunnelHost w c of
           Inl e \<Rightarrow> (Inl e, c)
         | Inr th \<Rightarrow>
             if \<not> truthy_str th then
               (let c1 = emit RelayIp c in
                case fetch_ip w of Inl e \<Rightarrow> (Inl e, c1) | Inr ip \<Rightarrow> (Inr ip, c1))
             else (Inr th, c)))"

text \<open>
  The port that is compared with the persisted one: 443 in Custom Domain mode and
  whenever a tunnel host exists. In Custom Domain mode the \<open>||\<close> does not read the getter.
\<close>

definition compared_port :: "world \<Rightarrow> int option \<Rightarrow> cloud \<Rightarrow> int option" where
  "compared_port w p c =
     (if forwardingMode (storage c) = CustomDomain then Some 443
      else case cloudflareTunnelHost w c of
             Inr th \<Rightarrow> if truthy_str th then Some 443 else p
           | Inl e \<Rightarrow> p)"

definition str_or_undefined :: "string option \<Rightarrow> string" where
  "str_or_undefined v = (case v of None \<Rightarrow> ''undefined'' | Some s \<Rightarrow> s)"

definition verify_alert :: "settings \<Rightarrow> string" where
  "verify_alert v =
     ''Scrypted Cloud could not verify the IP Address of your custom domain '' @
     str_or_undefined (hostname v) @ ''.''"

text \<open>
  After a registration that returned no error: the advisory alert when the resolved
  address is neither \<open>localhost\<close>, nor the address the relay reports, nor the tunnel host;
  then the address is persisted. Reading \<open>data.ip_address\<close> of a missing body throws.
\<close>

definition after_registration ::
    "world \<Rightarrow> string option \<Rightarrow> register_body option \<Rightarrow> cloud \<Rightarrow> (error + unit) \<times> cloud" where
  "after_registration w ip data c =
     (let persist = (\<lambda>c'. c'\<lparr>storage := (storage c')\<lparr>lastPersistedIp := ip\<rparr>\<rparr>) in
      if ip = Some ''localhost'' then (Inr (), persist c)
      else case data of
             None \<Rightarrow> (Inl (TypeError ''Cannot read properties of undefined''), c)
           | Some d \<Rightarrow>
               if ip = ip_address d then (Inr (), persist c)
               else (case cloudflareTunnelHost w c of
                       Inl e \<Rightarrow> (Inl e, c)
                     | Inr th \<Rightarrow>
                         if ip \<noteq> th
                         then (Inr (), persist (log_a (verify_alert (storage c)) c))
                         else (Inr (), persist c)))"

definition updatePortForward :: "world \<Rightarrow> int option \<Rightarrow> cloud \<Rightarrow> (error + unit) \<times> cloud" where
  "updatePortForward w p0 c0 =
     (let c = c0\<lparr>storage := (storage c0)\<lparr>upnpPort := p0\<rparr>\<rparr> in
      case resolve_ip w c of
        (Inl e, c1) \<Rightarrow> (Inl e, c1)
      | (Inr ip, c1) \<Rightarrow>
          let p = compared_port w p0 c1; v = storage c1 in
          if lastPersistedUpnpPort v \<noteq> p \<or> ip \<noteq> lastPersistedIp v then
            (case sendRegistrationId w (manager_registrationId w) False c1 of
               (Inl e, c2) \<Rightarrow> (Inl e, c2)
             | (Inr data, c2) \<Rightarrow>
                 if truthy_str (body_error_of data) then (Inr (), c2)
                 else after_registration w ip data c2)
          else (Inr (), c1))"

section \<open>refreshPortForward\<close>

text \<open>\<open>Math.round\<close> rounds to the nearest integer, a half upwards.\<close>

definition Math_round :: "real \<Rightarrow> int" where
  "Math_round x = \<lfloor>x + 1 / 2\<rfloor>"

definition random_port :: "world \<Rightarrow> int" where
  "random_port w = Math_round (Math_random w * 20000 + 40000)"

text \<open>The period of the timer that calls \<open>refreshPortForward\<close>, in milliseconds.\<close>

definition upnpInterval_ms :: int where
  "upnpInterval_ms = 30 * 60 * 1000"

text \<open>The first element of \<open>getLocalAddresses() || []\<close>.\<close>

definition first_local_address :: "world \<Rightarrow> string option" where
  "first_local_address w =
     (case getLocalAddresses w of None \<Rightarrow> None | Some [] \<Rightarrow> None | Some (a # _) \<Rightarrow> Some a)"

definition port_443_alert :: string where
  "port_443_alert = ''Scrypted Cloud does not allow usage of port 443. Use a custom domain with a SSL terminating reverse proxy.''"

definition no_address_alert :: string where
  "no_address_alert = ''UPNP Port Reservation failed. Scrypted Server Address is not configured in system Settings.''"

definition upnp_failed_alert :: string where
  "upnp_failed_alert = ''UPNP Port Reservation failed. Enable UPNP on your router, set up port forwarding, or disable Port Forwarding Mode in the Scrypted Cloud Plugin to suppress this error.''"

text \<open>
  The local \<open>upnpPort\<close>: the persisted port, or a random one when none is persisted.
  The run is followed to the end of its asynchronous work. In Disabled mode
  \<open>updatePortForward\<close> is started and not awaited, and in UPNP mode it runs inside the
  mapping's callback: in both, what it throws is an unhandled rejection and
  \<open>refreshPortForward\<close> itself returns normally. The mapping request is the effect
  \<open>UpnpPortMapping public host private ttl\<close>.
\<close>

definition chosen_port :: "world \<Rightarrow> settings \<Rightarrow> int" where
  "chosen_port w v =
     (if \<not> truthy_num (upnpPort v) then random_port w
      else (case upnpPort v of Some n \<Rightarrow> n | None \<Rightarrow> 0))"

definition refreshPortForward :: "world \<Rightarrow> cloud \<Rightarrow> (error + unit) \<times> cloud" where
  "refreshPortForward w c =
     (let v = storage c; p = chosen_port w v in
      if forwardingMode v = Disabled then (Inr (), snd (updatePortForward w (Some p) c))
      else if p = 443 then
        (Inr (), log_a port_443_alert (c\<lparr>upnpStatus := ''Error: Port 443 Not Allowed''\<rparr>))
      else if forwardingMode v = RouterForward then updatePortForward w (Some p) c
      else if forwardingMode v = CustomDomain then updatePortForward w (upnpPort v) c
      else
        (case first_local_address w of
           None \<Rightarrow> (Inr (), log_a no_address_alert c)
         | Some localAddress \<Rightarrow>
             if localAddress = [] then (Inr (), log_a no_address_alert c)
             else
               let c1 = emit (UpnpPortMapping p localAddress (this_securePort c) 1800) c in
               if portMapping_err w then
                 (Inr (), log_a upnp_failed_alert (c1\<lparr>upnpStatus := ''Error: See Console''\<rparr>))
               else
                 (Inr (), snd (updatePortForward w (Some p) (c1\<lparr>upnpStatus := ''Active''\<rparr>)))))"

section \<open>Example states\<close>

text \<open>
  Concrete instances of the environment's parameters, for evaluating the functions on
  plain inputs: the URL parser on URLs of the shape \<open>scheme://host[:port][/path][?query]\<close>
  that need no normalisation, the query reader on \<open>key=value\<close> pairs joined by \<open>&\<close>
  with nothing to decode, and a query-string writer that joins \<open>key=value\<close> with
  \<open>&\<close> (a missing value is written empty).
\<close>

fun after_scheme :: "string \<Rightarrow> string option" where
  "after_scheme [] = None"
| "after_scheme (c # r) =
     (if c = CHR '':'' \<and> take 2 r = ''//'' then Some (drop 2 r) else after_scheme r)"

definition plain_URL_host :: "string \<Rightarrow> string option" where
  "plain_URL_host u =
     map_option (takeWhile (\<lambda>c. c \<noteq> CHR ''/'' \<and> c \<noteq> CHR ''?'' \<and> c \<noteq> CHR ''#''))
       (after_scheme u)"

definition plain_URL_pathname :: "string \<Rightarrow> string option" where
  "plain_URL_pathname u =
     map_option
       (\<lambda>r. let p = takeWhile (\<lambda>c. c \<noteq> CHR ''?'' \<and> c \<noteq> CHR ''#'')
                       (dropWhile (\<lambda>c. c \<noteq> CHR ''/'' \<and> c \<noteq> CHR ''?'' \<and> c \<noteq> CHR ''#'') r)
            in if p = [] then ''/'' else p)
       (after_scheme u)"

text \<open>The scheme of a URL, with its \<open>://\<close>; empty for a reference without a scheme.\<close>

definition scheme_prefix :: "string \<Rightarrow> string" where
  "scheme_prefix u =
     (case after_scheme u of None \<Rightarrow> [] | Some r \<Rightarrow> take (length u - length r) u)"

text \<open>
  An absolute URL keeps its scheme, path and query and takes the name of the new host,
  without a port (the source sets \<open>u.host\<close> and then clears \<open>u.port\<close>); a reference
  that starts with \<open>/\<close> takes the scheme of the base.
\<close>

definition plain_URL_rehost :: "string \<Rightarrow> string \<Rightarrow> string \<Rightarrow> string option" where
  "plain_URL_rehost u base h =
     (let name = takeWhile (\<lambda>c. c \<noteq> CHR '':'') h in
      case after_scheme u of
        Some r \<Rightarrow>
          Some (scheme_prefix u @ name @
                dropWhile (\<lambda>c. c \<noteq> CHR ''/'' \<and> c \<noteq> CHR ''?'' \<and> c \<noteq> CHR ''#'') r)
      | None \<Rightarrow>
          (case after_scheme base of
             None \<Rightarrow> None
           | Some b \<Rightarrow> if take 1 u = ''/'' then Some (scheme_prefix base @ name @ u) else None))"

fun lookup_param :: "string \<Rightarrow> string list \<Rightarrow> string option" where
  "lookup_param k [] = None"
| "lookup_param k (kv # kvs) =
     (if takeWhile (\<lambda>c. c \<noteq> CHR ''='') kv = k
      then Some (drop 1 (dropWhile (\<lambda>c. c \<noteq> CHR ''='') kv))
      else lookup_param k kvs)"

definition plain_URLSearchParams_get :: "string \<Rightarrow> string \<Rightarrow> string option" where
  "plain_URLSearchParams_get q k = (if q = [] then None else lookup_param k (split_on CHR ''&'' q))"

fun plain_qsstringify :: "(string \<times> string option) list \<Rightarrow> string" where
  "plain_qsstringify [] = []"
| "plain_qsstringify [(k, v)] = k @ ''='' @ (case v of None \<Rightarrow> [] | Some s \<Rightarrow> s)"
| "plain_qsstringify ((k, v) # kvs) =
     k @ ''='' @ (case v of None \<Rightarrow> [] | Some s \<Rightarrow> s) @ ''&'' @ plain_qsstringify kvs"

text \<open>
  \<open>tls.connect\<close> on a missing port (\<open>ERR_MISSING_ARGS\<close>) and on a port written in
  decimal digits, which is accepted when it is below 65536 (\<open>ERR_SOCKET_BAD_PORT\<close>
  otherwise).
\<close>

definition plain_tls_connect :: "string option \<Rightarrow> string \<Rightarrow> error option" where
  "plain_tls_connect p h =
     (case p of
        None \<Rightarrow> Some (TypeError ''ERR_MISSING_ARGS'')
      | Some d \<Rightarrow>
          if d \<noteq> [] \<and> list_all (\<lambda>c. (48::nat) \<le> of_char c \<and> of_char c \<le> (57::nat)) d \<and>
             foldl (\<lambda>n c. 10 * n + (of_char c - 48)) (0::nat) d < 65536
          then None
          else Some (Error ''ERR_SOCKET_BAD_PORT''))"

definition example_settings :: settings where
  "example_settings =
     \<lparr>token_info = Some ''bearer-token'', lastPersistedRegistrationId = None,
      registrationSecret = ''c2VjcmV0'', serverId = ''0123456789abcdef'',
      serverName = ''scrypted'', forwardingMode = UPNP, hostname = None,
      duckDnsToken = None, duckDnsHostname = None, duckDnsCertValid = False,
      upnpPort = None, lastPersistedUpnpPort = None, lastPersistedIp = None,
      cloudflaredTunnelToken = None, connectHomeScryptedApp = True\<rparr>"

definition example_cloud :: cloud where
  "example_cloud =
     \<lparr>storage = example_settings, cloudflareTunnel = None, whitelisted = (\<lambda>p. None),
      upnpStatus = ''Starting'', this_securePort = Some 10443, alerts = [], effects = []\<rparr>"

definition example_world :: world where
  "example_world =
     \<lparr>SCRYPTED_SERVER = ''home.scrypted.app'', manager_registrationId = ''fcm-registration'',
      Math_random = 1 / 2, getLocalAddresses = Some [''192.168.1.10''],
      portMapping_err = False, fetch_ip = Inr (Some ''203.0.113.7''), fetch_duckdns = None,
      fetch_register = Inr (Some \<lparr>body_error = None, ip_address = Some ''203.0.113.7''\<rparr>),
      fetch_scope = Inr (Some \<lparr>userToken = Some ''ut'', userTokenSignature = Some ''sig''\<rparr>),
      URL_host = plain_URL_host, URL_pathname = plain_URL_pathname,
      URL_rehost = plain_URL_rehost, URLSearchParams_get = plain_URLSearchParams_get,
      qsstringify = plain_qsstringify,
      getCloudMessagePath = ''/endpoint/@scrypted/cloud/public/0f1e2d3c4b5a6978'',
      tls_connect = plain_tls_connect\<rparr>"

text \<open>The settings of a custom domain, with and without its hostname.\<close>

definition custom_domain_cloud :: "string option \<Rightarrow> cloud" where
  "custom_domain_cloud h =
     example_cloud\<lparr>storage := example_settings\<lparr>forwardingMode := CustomDomain, hostname := h\<rparr>\<rparr>"

text \<open>Disabled mode, with an external port and an internal HTTPS port both configured.\<close>

definition disabled_cloud :: cloud where
  "disabled_cloud =
     example_cloud\<lparr>storage := example_settings\<lparr>forwardingMode := Disabled, upnpPort := Some 50000\<rparr>\<rparr>"

text \<open>The connect-to-cloud toggle switched off by the user.\<close>

definition disconnected_cloud :: cloud where
  "disconnected_cloud =
     example_cloud\<lparr>storage := example_settings\<lparr>connectHomeScryptedApp := False\<rparr>\<rparr>"

text \<open>A quick tunnel is up (no tunnel token), in the default UPNP mode.\<close>

definition tunnel_cloud :: cloud where
  "tunnel_cloud = example_cloud\<lparr>cloudflareTunnel := Some ''https://abc.trycloudflare.com''\<rparr>"

text \<open>The same tunnel in Custom Domain mode.\<close>

definition custom_domain_tunnel_cloud :: cloud where
  "custom_domain_tunnel_cloud =
     (custom_domain_cloud (Some ''home.example.com''))
       \<lparr>cloudflareTunnel := Some ''https://abc.trycloudflare.com''\<rparr>"

text \<open>\<open>Math.random()\<close> returns \<open>1 - 2^-20\<close>, a double below 1.\<close>

definition high_random_world :: world where
  "high_random_world = example_world\<lparr>Math_random := 1048575 / 1048576\<rparr>"

text \<open>The router refuses the mapping.\<close>

definition refusing_world :: world where
  "refusing_world = example_world\<lparr>portMapping_err := True\<rparr>"

text \<open>The state after one run of \<open>updatePortForward\<close> that registered.\<close>

definition registered_cloud :: cloud where
  "registered_cloud = snd (updatePortForward example_world (Some 50000) example_cloud)"

section \<open>Counting relay registrations\<close>

fun is_RelayRegister :: "effect \<Rightarrow> bool" where
  "is_RelayRegister (RelayRegister q t) = True"
| "is_RelayRegister e = False"

definition relay_registrations :: "cloud \<Rightarrow> nat" where
  "relay_registrations c = length (filter is_RelayRegister (effects c))"

text \<open>The user has not logged in: no bearer token is stored.\<close>

definition logged_out_cloud :: cloud where
  "logged_out_cloud = example_cloud\<lparr>storage := example_settings\<lparr>token_info := None\<rparr>\<rparr>"

section \<open>The relay connections\<close>

text \<open>
  The set \<open>reverseConnections\<close> holds sockets. A socket is named by a number: the n-th
  socket that \<open>createReverseConnection\<close> opened. The set is kept as the list of its
  elements in insertion order, as \<open>Set\<close> iterates them.
\<close>

definition Set_add :: "nat \<Rightarrow> nat list \<Rightarrow> nat list" where
  "Set_add x xs = (if x \<in> set xs then xs else xs @ [x])"

definition Set_delete :: "nat \<Rightarrow> nat list \<Rightarrow> nat list" where
  "Set_delete x xs = filter (\<lambda>y. y \<noteq> x) xs"

text \<open>
  The arguments a connection was opened with (\<open>registrationId\<close>, \<open>serverPort\<close>,
  \<open>serverHost\<close>); its close handler uses them again for the refill. The state: the pool,
  every pool connection opened so far with its arguments (socket n is entry n), the
  sockets whose \<open>claimed\<close> flag has been set, the timestamp \<open>backoff\<close> of
  \<open>setupProxyServer\<close>, and the TLS connections opened on the callback path.
\<close>

record reverse_target =
  target_registrationId :: string
  target_port :: "string option"
  target_host :: string

record proxy =
  reverseConnections :: "nat list"
  opened :: "reverse_target list"
  claimed :: "nat list"
  backoff :: int
  callback_connects :: "reverse_target list"

text \<open>
  The synchronous part of \<open>createReverseConnection\<close>. The function is \<open>async\<close>: when
  \<open>tls.connect\<close> throws, the call returns a rejected promise, nothing is thrown to the
  caller and the set is unchanged. Otherwise \<open>tls.connect\<close> returns a new socket, which
  is added to the set, and the promise stays pending: the rest of the function waits
  for the relay's line, which is the events \<open>ClaimLineRead\<close> and \<open>ReadLineFailed\<close>
  below. The first component is the promise when the call returns: rejected with an
  error, or pending.
\<close>

definition createReverseConnection ::
  "world \<Rightarrow> reverse_target \<Rightarrow> proxy \<Rightarrow> (error + unit) \<times> proxy" where
  "createReverseConnection w t s =
     (case tls_connect w (target_port t) (target_host t) of
        Some e \<Rightarrow> (Inl e, s)
      | None \<Rightarrow>
          (Inr (),
           s\<lparr>reverseConnections := Set_add (length (opened s)) (reverseConnections s),
             opened := opened s @ [t]\<rparr>))"

text \<open>
  The loop \<open>while (this.reverseConnections.size < 10)\<close>, which drops the promise of
  each call. The result \<open>None\<close> is a loop that never ends.
\<close>

partial_function (option) ensureReverseConnections ::
  "world \<Rightarrow> reverse_target \<Rightarrow> proxy \<Rightarrow> proxy option" where
  "ensureReverseConnections w t s =
     (if length (reverseConnections s) < 10
      then ensureReverseConnections w t (snd (createReverseConnection w t s))
      else Some s)"

text \<open>
  What happens to the connections, one event at a time: a pool socket closes, the
  relay's claim line arrives on a pool socket (\<open>readLine\<close> returns), \<open>readLine\<close>
  throws, the push manager delivers a message at time \<open>Date.now()\<close>, or the relay
  completes the multiplexer handshake of a callback connection.
\<close>

datatype message = Callback "string option" | CloudMessage string | OtherMessage

datatype event =
    SocketClosed nat
  | ClaimLineRead nat
  | ReadLineFailed nat
  | PushMessage int message
  | MuxHandshake reverse_target

text \<open>
  The close handler of socket n: the socket leaves the set, and only if its \<open>claimed\<close>
  flag is set the pool is topped up, with the arguments the socket was opened with. A
  socket that was never opened has no handler.
\<close>

definition on_close :: "world \<Rightarrow> nat \<Rightarrow> proxy \<Rightarrow> proxy option" where
  "on_close w n s =
     (if n < length (opened s) then
        let s1 = s\<lparr>reverseConnections := Set_delete n (reverseConnections s)\<rparr> in
        if n \<in> set (claimed s1) then ensureReverseConnections w (opened s ! n) s1 else Some s1
      else Some s)"

text \<open>\<open>readLine\<close> returned on socket n: its \<open>claimed\<close> flag is set.\<close>

definition on_claim :: "nat \<Rightarrow> proxy \<Rightarrow> proxy" where
  "on_claim n s = (if n < length (opened s) then s\<lparr>claimed := Set_add n (claimed s)\<rparr> else s)"

text \<open>
  \<open>address?.split(':') || [SCRYPTED_SERVER, 4001]\<close>, destructured into host and port
  (the port is missing when the address has no colon).
\<close>

definition callback_target :: "world \<Rightarrow> string option \<Rightarrow> reverse_target" where
  "callback_target w address =
     (case address of
        None \<Rightarrow> \<lparr>target_registrationId = manager_registrationId w, target_port = Some ''4001'',
                 target_host = SCRYPTED_SERVER w\<rparr>
      | Some a \<Rightarrow>
          (case split_on CHR '':'' a of
             [] \<Rightarrow> \<lparr>target_registrationId = manager_registrationId w, target_port = None,
                    target_host = []\<rparr>
           | [h] \<Rightarrow> \<lparr>target_registrationId = manager_registrationId w, target_port = None,
                     target_host = h\<rparr>
           | h # p # _ \<Rightarrow> \<lparr>target_registrationId = manager_registrationId w,
                           target_port = Some p, target_host = h\<rparr>))"

text \<open>
  The handler of \<open>manager.on('message')\<close>, an \<open>async\<close> function: the result is the
  promise it returns (resolved, or rejected with the error thrown) and the new state,
  or \<open>None\<close> when it never returns. A \<open>cloudmessage\<close> is delivered to a push handler
  inside a \<open>try\<close> and touches nothing here. A \<open>callback\<close> within 5000 ms of the
  recorded timestamp returns at once. Otherwise the timestamp is recorded, the pool is
  topped up, and \<open>tls.connect\<close> is called for the callback connection: a connection is
  opened when it returns, none when it throws. The registration id that the handler
  awaits is taken to be available at once, so the handler runs as one step.
\<close>

definition on_message ::
  "world \<Rightarrow> int \<Rightarrow> message \<Rightarrow> proxy \<Rightarrow> ((error + unit) \<times> proxy) option" where
  "on_message w now m s =
     (case m of
        CloudMessage request \<Rightarrow> Some (Inr (), s)
      | Callback address \<Rightarrow>
          if now < backoff s + 5000 then Some (Inr (), s)
          else
            let s1 = s\<lparr>backoff := now\<rparr>;
                t = callback_target w address
            in (case ensureReverseConnections w t s1 of
                  None \<Rightarrow> None
                | Some s2 \<Rightarrow>
                    (case tls_connect w (target_port t) (target_host t) of
                       Some e \<Rightarrow> Some (Inl e, s2)
                     | None \<Rightarrow>
                         Some (Inr (), s2\<lparr>callback_connects := callback_connects s2 @ [t]\<rparr>)))
      | OtherMessage \<Rightarrow> Some (Inr (), s))"

text \<open>
  One event. The emitter drops the promise of the message handler. The handshake
  handler belongs to a callback connection: a connection that was never opened has
  none.
\<close>

fun handle :: "world \<Rightarrow> event \<Rightarrow> proxy \<Rightarrow> proxy option" where
  "handle w (SocketClosed n) s = on_close w n s"
| "handle w (ClaimLineRead n) s = Some (on_claim n s)"
| "handle w (ReadLineFailed n) s = Some s"
| "handle w (PushMessage now m) s = map_option snd (on_message w now m s)"
| "handle w (MuxHandshake t) s =
     (if t \<in> set (callback_connects s) then ensureReverseConnections w t s else Some s)"

text \<open>The events in order; a handler that never returns ends the run.\<close>

fun run :: "world \<Rightarrow> event list \<Rightarrow> proxy \<Rightarrow> proxy option" where
  "run w [] s = Some s"
| "run w (e # es) s = (case handle w e s of None \<Rightarrow> None | Some s' \<Rightarrow> run w es s')"

text \<open>
  \<open>tls.connect\<close> returns a socket for these arguments. The sockets in the pool are
  distinct and have all been opened, and every connection opened so far was opened
  with arguments that \<open>tls.connect\<close> accepts.
\<close>

definition accepted :: "world \<Rightarrow> reverse_target \<Rightarrow> bool" where
  "accepted w t \<longleftrightarrow> tls_connect w (target_port t) (target_host t) = None"

definition pool_ok :: "world \<Rightarrow> proxy \<Rightarrow> bool" where
  "pool_ok w s \<longleftrightarrow> distinct (reverseConnections s) \<and>
     list_all (\<lambda>n. n < length (opened s)) (reverseConnections s) \<and>
     list_all (accepted w) (opened s) \<and> list_all (accepted w) (callback_connects s)"

text \<open>
  The state before any event; the relay's default address and the pool filled once
  for it; an address a callback message names, and the state after that callback has
  been handled at time 1700000000000.
\<close>

definition initial_proxy :: proxy where
  "initial_proxy = \<lparr>reverseConnections = [], opened = [], claimed = [], backoff = 0, callback_connects = []\<rparr>"

definition example_target :: reverse_target where
  "example_target = \<lparr>target_registrationId = ''fcm-registration'', target_port = Some ''4001'', target_host = ''home.scrypted.app''\<rparr>"

definition full_pool :: proxy where
  "full_pool =
     (let t = example_target in
      \<lparr>reverseConnections = [0, 1, 2, 3, 4, 5, 6, 7, 8, 9],
       opened = [t, t, t, t, t, t, t, t, t, t], claimed = [], backoff = 0,
       callback_connects = []\<rparr>)"

definition relay_target :: reverse_target where
  "relay_target = \<lparr>target_registrationId = ''fcm-registration'', target_port = Some ''4001'',
     target_host = ''relay.example.com''\<rparr>"

definition after_callback :: proxy where
  "after_callback =
     (let t = relay_target in
      \<lparr>reverseConnections = [0, 1, 2, 3, 4, 5, 6, 7, 8, 9],
       opened = [t, t, t, t, t, t, t, t, t, t], claimed = [], backoff = 1700000000000,
       callback_connects = [t]\<rparr>)"

section \<open>Public URL conversion\<close>

text \<open>A number written in a template string, for integers.\<close>

fun show_nat :: "nat \<Rightarrow> string" where
  "show_nat n = (if n < 10 then [char_of (48 + n)] else show_nat (n div 10) @ [char_of (48 + n mod 10)])"

declare show_nat.simps [simp del]

definition show_int :: "int \<Rightarrow> string" where
  "show_int i = (if i < 0 then ''-'' @ show_nat (nat (- i)) else show_nat (nat i))"

text \<open>
  \<open>getSSLHostname\<close>: the custom domain's hostname, else the tunnel host when a tunnel
  token is set, else the Duck DNS host and port when its certificate is valid. Every
  falsy result is \<open>None\<close>; the getter of the tunnel host may throw.
\<close>

definition getSSLHostname :: "world \<Rightarrow> cloud \<Rightarrow> error + string option" where
  "getSSLHostname w c =
     (let v = storage c in
      if forwardingMode v = CustomDomain \<and> truthy_str (hostname v) then Inr (hostname v)
      else
        (case (if truthy_str (cloudflaredTunnelToken v) then cloudflareTunnelHost w c
               else Inr None) of
           Inl e \<Rightarrow> Inl e
         | Inr th \<Rightarrow>
             if truthy_str th then Inr th
             else if duckDnsCertValid v \<and> truthy_str (duckDnsHostname v) \<and> truthy_num (upnpPort v)
             then Inr (Some ((case duckDnsHostname v of Some d \<Rightarrow> d | None \<Rightarrow> []) @ '':'' @
                             show_int (case upnpPort v of Some n \<Rightarrow> n | None \<Rightarrow> 0)))
             else Inr None))"

definition getHostname :: "world \<Rightarrow> cloud \<Rightarrow> error + string" where
  "getHostname w c =
     (case getSSLHostname w c of
        Inl e \<Rightarrow> Inl e
      | Inr None \<Rightarrow> Inr (SCRYPTED_SERVER w)
      | Inr (Some h) \<Rightarrow> Inr h)"

definition SCRYPTED_CLOUD_MESSAGE_PATH :: string where
  "SCRYPTED_CLOUD_MESSAGE_PATH = ''/_punch/cloudmessage''"

definition TEN_YEARS_MS :: int where
  "TEN_YEARS_MS = 10 * 365 * 24 * 60 * 60 * 1000"

text \<open>
  \<open>whitelist\<close>: with an SSL hostname the URL is built directly; else the cache is
  consulted by the local path; else the relay signs the path (the effect \<open>RelayScope\<close>
  with host, scope, ttl and bearer token) and the signed URL is cached under the path.
\<close>

definition whitelist ::
    "world \<Rightarrow> string \<Rightarrow> int \<Rightarrow> string \<Rightarrow> cloud \<Rightarrow> (error + string) \<times> cloud" where
  "whitelist w localUrl ttl baseUrl c =
     (case URL_pathname w localUrl of
        None \<Rightarrow> (Inl (TypeError ''Invalid URL''), c)
      | Some pathname \<Rightarrow>
          (case getSSLHostname w c of
             Inl e \<Rightarrow> (Inl e, c)
           | Inr (Some h) \<Rightarrow> (Inr (baseUrl @ pathname), c)
           | Inr None \<Rightarrow>
               (case whitelisted c pathname of
                  Some url \<Rightarrow> (Inr url, c)
                | None \<Rightarrow>
                    (case token_info (storage c) of
                       None \<Rightarrow> (Inl (Error ''@scrypted/cloud is not logged in.''), c)
                     | Some tok \<Rightarrow>
                         if tok = [] then (Inl (Error ''@scrypted/cloud is not logged in.''), c)
                         else
                           let c1 = emit (RelayScope (SCRYPTED_SERVER w) pathname ttl tok) c in
                           (case fetch_scope w of
                              Inl e \<Rightarrow> (Inl e, c1)
                            | Inr None \<Rightarrow>
                                (Inl (TypeError ''Cannot destructure property of undefined''), c1)
                            | Inr (Some body) \<Rightarrow>
                                let tokens = qsstringify w
                                      [(''user_token'', userToken body),
                                       (''user_token_signature'', userTokenSignature body)];
                                    url = baseUrl @ pathname @ ''?'' @ tokens
                                in (Inr url,
                                    c1\<lparr>whitelisted := (whitelisted c1)(pathname \<mapsto> url)\<rparr>))))))"

text \<open>
  \<open>new URLSearchParams(toMimeType.split(';')[1] || '').get('short-lived') === 'true'\<close>.
\<close>

definition short_lived :: "world \<Rightarrow> string \<Rightarrow> bool" where
  "short_lived w toMimeType =
     (URLSearchParams_get w
        (case split_on CHR '';'' toMimeType of _ # p # _ \<Rightarrow> p | _ \<Rightarrow> [])
        ''short-lived'' = Some ''true'')"

text \<open>
  \<open>ScryptedCloud.convert\<close>: a short-lived URL on the tunnel when there is a tunnel
  outside Custom Domain mode and the target type asks for it, else \<open>whitelist\<close>.
  \<open>ScryptedPush.convert\<close> is \<open>push_convert\<close>.
\<close>

definition convert ::
    "world \<Rightarrow> string \<Rightarrow> string \<Rightarrow> string \<Rightarrow> cloud \<Rightarrow> (error + string) \<times> cloud" where
  "convert w data fromMimeType toMimeType c =
     (if truthy_str (cloudflareTunnel c) \<and> forwardingMode (storage c) \<noteq> CustomDomain \<and>
         short_lived w toMimeType
      then
        (case cloudflareTunnel c of
           None \<Rightarrow> (Inl (TypeError ''Invalid URL''), c)
         | Some tunnel \<Rightarrow>
             (case cloudflareTunnelHost w c of
                Inl e \<Rightarrow> (Inl e, c)
              | Inr None \<Rightarrow> (Inl (TypeError ''Invalid URL''), c)
              | Inr (Some h) \<Rightarrow>
                  (case URL_rehost w data tunnel h of
                     None \<Rightarrow> (Inl (TypeError ''Invalid URL''), c)
                   | Some u \<Rightarrow> (Inr u, c))))
      else
        (case getHostname w c of
           Inl e \<Rightarrow> (Inl e, c)
         | Inr h \<Rightarrow> whitelist w data TEN_YEARS_MS (''https://'' @ h) c))"

definition push_convert :: "world \<Rightarrow> string \<Rightarrow> cloud \<Rightarrow> (error + string) \<times> cloud" where
  "push_convert w data c =
     (case getSSLHostname w c of
        Inl e \<Rightarrow> (Inl e, c)
      | Inr (Some validDomain) \<Rightarrow>
          (Inr (''https://'' @ validDomain @ getCloudMessagePath w @ ''/'' @ data), c)
      | Inr None \<Rightarrow>
          (case getHostname w c of
             Inl e \<Rightarrow> (Inl e, c)
           | Inr h \<Rightarrow>
               whitelist w (''http://127.0.0.1/push/'' @ data) TEN_YEARS_MS
                 (''https://'' @ h @ SCRYPTED_CLOUD_MESSAGE_PATH) c))"

text \<open>States in which one local path has been whitelisted, and the URLs returned.\<close>

definition whitelisted_tunnel_cloud :: cloud where
  "whitelisted_tunnel_cloud =
     snd (whitelist example_world ''http://127.0.0.1/endpoint/x'' TEN_YEARS_MS
            ''https://home.scrypted.app'' tunnel_cloud)"


definition whitelisted_cloud :: cloud where
  "whitelisted_cloud =
     snd (whitelist example_world ''http://127.0.0.1/endpoint/x'' TEN_YEARS_MS
            ''https://home.scrypted.app'' example_cloud)"

definition example_signed_url :: string where
  "example_signed_url =
     ''https://home.scrypted.app/endpoint/x?user_token=ut&user_token_signature=sig''"

definition pushed_cloud :: cloud where
  "pushed_cloud =
     snd (whitelist example_world ''http://127.0.0.1/push/dev42'' TEN_YEARS_MS
            ''https://home.scrypted.app/_punch/cloudmessage'' example_cloud)"

definition example_push_url :: string where
  "example_push_url =
     ''https://home.scrypted.app/_punch/cloudmessage/push/dev42?user_token=ut&user_token_signature=sig''"

section \<open>The tunnel's log: JSON values\<close>

text \<open>
  What \<open>JSON.parse\<close> returns. A number keeps the text it was written with; strings are
  byte strings, and an escaped code unit above 127 is stored in its UTF-8 form.
\<close>

datatype json =
    JNull
  | JBool bool
  | JNumber string
  | JString string
  | JArray "json list"
  | JObject "(string \<times> json) list"

definition dquote :: char where "dquote = CHR 0x22"
definition backslash :: char where "backslash = CHR 0x5C"

definition is_ws :: "char \<Rightarrow> bool" where
  "is_ws c \<longleftrightarrow> c = CHR '' '' \<or> c = CHR 0x09 \<or> c = CHR 0x0A \<or> c = CHR 0x0D"

definition skip_ws :: "string \<Rightarrow> string" where
  "skip_ws s = dropWhile is_ws s"

definition is_digit :: "char \<Rightarrow> bool" where
  "is_digit c \<longleftrightarrow> (48::nat) \<le> of_char c \<and> of_char c \<le> (57::nat)"

definition hex_value :: "char \<Rightarrow> nat option" where
  "hex_value c =
     (let n = (of_char c :: nat) in
      if 48 \<le> n \<and> n \<le> 57 then Some (n - 48)
      else if 97 \<le> n \<and> n \<le> 102 then Some (n - 87)
      else if 65 \<le> n \<and> n \<le> 70 then Some (n - 55)
      else None)"

definition hex4 :: "string \<Rightarrow> nat option" where
  "hex4 s =
     (case map hex_value s of
        [Some a, Some b, Some c, Some d] \<Rightarrow> Some (((a * 16 + b) * 16 + c) * 16 + d)
      | _ \<Rightarrow> None)"

definition utf8 :: "nat \<Rightarrow> string" where
  "utf8 n =
     (if n < 128 then [char_of n]
      else if n < 2048 then [char_of (192 + n div 64), char_of (128 + n mod 64)]
      else [char_of (224 + n div 4096), char_of (128 + (n div 64) mod 64), char_of (128 + n mod 64)])"

definition unescape :: "char \<Rightarrow> char option" where
  "unescape c =
     (if c = dquote \<or> c = backslash \<or> c = CHR ''/'' then Some c
      else if c = CHR ''b'' then Some (CHR 0x08)
      else if c = CHR ''f'' then Some (CHR 0x0C)
      else if c = CHR ''n'' then Some (CHR 0x0A)
      else if c = CHR ''r'' then Some (CHR 0x0D)
      else if c = CHR ''t'' then Some (CHR 0x09)
      else None)"

text \<open>The characters of a string literal after its opening quote, and the rest.\<close>

fun parse_chars :: "string \<Rightarrow> (string \<times> string) option" where
  "parse_chars [] = None"
| "parse_chars [c] = (if c = dquote then Some ([], []) else None)"
| "parse_chars (c # e # r) =
     (if c = dquote then Some ([], e # r)
      else if c = backslash then
        (if e = CHR ''u'' then
           (case hex4 (take 4 r) of
              None \<Rightarrow> None
            | Some n \<Rightarrow> map_option (\<lambda>(x, rest). (utf8 n @ x, rest)) (parse_chars (drop 4 r)))
         else
           (case unescape e of
              None \<Rightarrow> None
            | Some d \<Rightarrow> map_option (\<lambda>(x, rest). (d # x, rest)) (parse_chars r)))
      else if of_char c < (32::nat) then None
      else map_option (\<lambda>(x, rest). (c # x, rest)) (parse_chars (e # r)))"

text \<open>A number: optional minus, integer part without leading zero, fraction, exponent.\<close>

definition take_digits :: "string \<Rightarrow> string \<times> string" where
  "take_digits s = (takeWhile is_digit s, dropWhile is_digit s)"

definition take_int :: "string \<Rightarrow> (string \<times> string) option" where
  "take_int s =
     (case take_digits s of
        ([], _) \<Rightarrow> None
      | (d # ds, r) \<Rightarrow> if d = CHR ''0'' then Some ([d], ds @ r) else Some (d # ds, r))"

definition take_frac :: "string \<Rightarrow> (string \<times> string) option" where
  "take_frac s =
     (case s of
        [] \<Rightarrow> Some ([], [])
      | c # r \<Rightarrow>
          if c = CHR ''.'' then
            (case take_digits r of ([], _) \<Rightarrow> None | (ds, r') \<Rightarrow> Some (c # ds, r'))
          else Some ([], s))"

definition take_exp :: "string \<Rightarrow> (string \<times> string) option" where
  "take_exp s =
     (case s of
        [] \<Rightarrow> Some ([], [])
      | c # r \<Rightarrow>
          if c = CHR ''e'' \<or> c = CHR ''E'' then
            (let sgn = (if take 1 r = ''+'' \<or> take 1 r = ''-'' then take 1 r else []);
                 r1 = drop (length sgn) r
             in case take_digits r1 of ([], _) \<Rightarrow> None | (ds, r') \<Rightarrow> Some (c # sgn @ ds, r'))
          else Some ([], s))"

definition take_number :: "string \<Rightarrow> (string \<times> string) option" where
  "take_number s =
     (let sgn = (if take 1 s = ''-'' then ''-'' else []); s1 = drop (length sgn) s in
      case take_int s1 of
        None \<Rightarrow> None
      | Some (i, s2) \<Rightarrow>
          (case take_frac s2 of
             None \<Rightarrow> None
           | Some (f, s3) \<Rightarrow>
               (case take_exp s3 of
                  None \<Rightarrow> None
                | Some (e, s4) \<Rightarrow> Some (sgn @ i @ f @ e, s4))))"

text \<open>
  The recursive descent over values, array elements and object members. The first
  argument bounds the number of nested calls; \<open>JSON_parse\<close> starts with twice the length
  of the text plus two. A text that is not JSON gives \<open>None\<close>, where \<open>JSON.parse\<close>
  throws a \<open>SyntaxError\<close>.
\<close>

fun parse_value :: "nat \<Rightarrow> string \<Rightarrow> (json \<times> string) option"
  and parse_elements :: "nat \<Rightarrow> string \<Rightarrow> (json list \<times> string) option"
  and parse_members :: "nat \<Rightarrow> string \<Rightarrow> ((string \<times> json) list \<times> string) option"
where
  "parse_value 0 s = None"
| "parse_value (Suc n) s =
     (case skip_ws s of
        [] \<Rightarrow> None
      | c # r \<Rightarrow>
          if c = CHR ''{'' then
            (if take 1 (skip_ws r) = ''}'' then Some (JObject [], drop 1 (skip_ws r))
             else map_option (\<lambda>(ms, rest). (JObject ms, rest)) (parse_members n r))
          else if c = CHR ''['' then
            (if take 1 (skip_ws r) = '']'' then Some (JArray [], drop 1 (skip_ws r))
             else map_option (\<lambda>(vs, rest). (JArray vs, rest)) (parse_elements n r))
          else if c = dquote then map_option (\<lambda>(x, rest). (JString x, rest)) (parse_chars r)
          else if take 4 (c # r) = ''true'' then Some (JBool True, drop 3 r)
          else if take 5 (c # r) = ''false'' then Some (JBool False, drop 4 r)
          else if take 4 (c # r) = ''null'' then Some (JNull, drop 3 r)
          else map_option (\<lambda>(x, rest). (JNumber x, rest)) (take_number (c # r)))"
| "parse_elements 0 s = None"
| "parse_elements (Suc n) s =
     (case parse_value n s of
        None \<Rightarrow> None
      | Some (v, r) \<Rightarrow>
          (case skip_ws r of
             [] \<Rightarrow> None
           | c # r' \<Rightarrow>
               if c = CHR '','' then map_option (\<lambda>(vs, rest). (v # vs, rest)) (parse_elements n r')
               else if c = CHR '']'' then Some ([v], r')
               else None))"
| "parse_members 0 s = None"
| "parse_members (Suc n) s =
     (case skip_ws s of
        [] \<Rightarrow> None
      | q # r \<Rightarrow>
          if q \<noteq> dquote then None
          else
            (case parse_chars r of
               None \<Rightarrow> None
             | Some (k, r1) \<Rightarrow>
                 (case skip_ws r1 of
                    [] \<Rightarrow> None
                  | c # r2 \<Rightarrow>
                      if c \<noteq> CHR '':'' then None
                      else
                        (case parse_value n r2 of
                           None \<Rightarrow> None
                         | Some (v, r3) \<Rightarrow>
                             (case skip_ws r3 of
                                [] \<Rightarrow> None
                              | d # r4 \<Rightarrow>
                                  if d = CHR '','' then
                                    map_option (\<lambda>(ms, rest). ((k, v) # ms, rest)) (parse_members n r4)
                                  else if d = CHR ''}'' then Some ([(k, v)], r4)
                                  else None)))))"


section \<open>The tunnel's log: hostname discovery\<close>




















section \<open>Properties of getAuthority\<close>

lemma getAuthority_returns_443:
  assumes "getAuthority c = (Inr a, c')" and "port a = Some 443"
  shows "\<exists>h. authority_hostname a = Some h \<and> h \<noteq> []"
proof -
  let ?v = "storage c"
  from assms have nd: "forwardingMode ?v \<noteq> Disabled"
    by (auto simp: getAuthority_def empty_authority_def Let_def)
  from assms nd have pa: "computed_port ?v = Some 443"
    by (auto simp: getAuthority_def Let_def split: if_splits)
  from assms nd pa have "truthy_str (computed_hostname ?v)"
    and "authority_hostname a = computed_hostname ?v"
    by (auto simp: getAuthority_def Let_def split: if_splits)
  then show ?thesis
    by (auto simp: truthy_str_def split: option.splits)
qed

lemma getAuthority_throws_443:
  assumes "forwardingMode (storage c) \<noteq> Disabled"
    and "computed_port (storage c) = Some 443"
    and "\<not> truthy_str (computed_hostname (storage c))"
  shows "\<exists>msg. getAuthority c = (Inl (Error msg), log_a msg c)"
  using assms by (simp add: getAuthority_def Let_def)

text \<open>
  C1. Whatever the forwarding mode and the settings, an authority that \<open>getAuthority\<close>
  returns with port 443 carries a hostname, and the hostname is not empty. Whenever the
  port it computes is 443 and the hostname it computes is missing or empty, it returns no
  authority: it throws an error, after posting the same message as a user alert.
\<close>

theorem getAuthority_port_443:
  "(\<forall>a c'. getAuthority c = (Inr a, c') \<and> port a = Some 443 \<longrightarrow>
      (\<exists>h. authority_hostname a = Some h \<and> h \<noteq> [])) \<and>
   (forwardingMode (storage c) \<noteq> Disabled \<and> computed_port (storage c) = Some 443 \<and>
    \<not> truthy_str (computed_hostname (storage c)) \<longrightarrow>
      (\<exists>msg. getAuthority c = (Inl (Error msg), c\<lparr>alerts := alerts c @ [msg]\<rparr>)))"
  using getAuthority_returns_443 [of c] getAuthority_throws_443 [of c]
  unfolding log_a_def by blast

theorem getAuthority_port_443_witness:
  "getAuthority (custom_domain_cloud (Some ''cam.example.com'')) =
     (Inr \<lparr>upnp_port = Some 443, port = Some 443,
           authority_hostname = Some ''cam.example.com''\<rparr>,
      custom_domain_cloud (Some ''cam.example.com'')) \<and>
   (\<exists>h. Some ''cam.example.com'' = Some h \<and> h \<noteq> []) \<and>
   forwardingMode (storage (custom_domain_cloud None)) \<noteq> Disabled \<and>
   computed_port (storage (custom_domain_cloud None)) = Some 443 \<and>
   \<not> truthy_str (computed_hostname (storage (custom_domain_cloud None))) \<and>
   fst (getAuthority (custom_domain_cloud None)) =
     Inl (Error ''Hostname is required for port Custom Domain setup.'') \<and>
   alerts (snd (getAuthority (custom_domain_cloud None))) =
     [''Hostname is required for port Custom Domain setup.'']"
  using getAuthority_port_443 [of "custom_domain_cloud (Some ''cam.example.com'')"]
    getAuthority_port_443 [of "custom_domain_cloud None"]
  by (simp add: getAuthority_def custom_domain_cloud_def example_cloud_def
      example_settings_def computed_port_def computed_hostname_def truthy_str_def
      log_a_def Let_def)

section \<open>Effects and storage along a registration\<close>

lemma getAuthority_Inr_state: "getAuthority c = (Inr a, c') \<Longrightarrow> c' = c"
  by (auto simp: getAuthority_def Let_def split: if_splits)

lemma getAuthority_effects: "effects (snd (getAuthority c)) = effects c"
  by (simp add: getAuthority_def Let_def log_a_def)

lemma getAuthority_storage: "storage (snd (getAuthority c)) = storage c"
  by (simp add: getAuthority_def Let_def log_a_def)


lemma sendRegistrationId_throws:
  "fst (sendRegistrationId w rid frc c) = Inl e \<longleftrightarrow> fst (getAuthority c) = Inl e"
  by (cases "getAuthority c")
     (auto simp: sendRegistrationId_def Let_def split: sum.splits option.splits)

lemma sendRegistrationId_disconnected:
  "getAuthority c = (Inr a, c) \<Longrightarrow> \<not> connectHomeScryptedApp (storage c) \<Longrightarrow>
   sendRegistrationId w rid frc c =
     (Inr (Some (error_body (''Scrypted Cloud connection to '' @ SCRYPTED_SERVER w @ '' is disabled.''))), c)"
  by (simp add: sendRegistrationId_def Let_def)

lemma sendRegistrationId_not_logged_in:
  "getAuthority c = (Inr a, c) \<Longrightarrow> connectHomeScryptedApp (storage c) \<Longrightarrow>
   \<not> truthy_str (token_info (storage c)) \<Longrightarrow>
   sendRegistrationId w rid frc c = (Inr (Some (error_body login_alert)), log_a login_alert c)"
  by (simp add: sendRegistrationId_def Let_def truthy_str_def split: option.splits)

lemma sendRegistrationId_success:
  "getAuthority c = (Inr a, c) \<Longrightarrow> connectHomeScryptedApp (storage c) \<Longrightarrow>
   truthy_str (token_info (storage c)) \<Longrightarrow> fetch_register w = Inr body \<Longrightarrow>
   \<not> truthy_str (body_error_of body) \<Longrightarrow>
   fst (sendRegistrationId w rid frc c) = Inr body \<and>
   lastPersistedRegistrationId (storage (snd (sendRegistrationId w rid frc c))) = Some rid \<and>
   lastPersistedUpnpPort (storage (snd (sendRegistrationId w rid frc c))) = upnp_port a"
  by (simp add: sendRegistrationId_def Let_def truthy_str_def emit_def split: option.splits)

lemma sendRegistrationId_effects:
  "\<exists>es. effects (snd (sendRegistrationId w rid frc c)) = effects c @ es"
  apply (cases "getAuthority c")
  subgoal for r c1
    using getAuthority_effects [of c]
    by (cases r) (auto simp: sendRegistrationId_def Let_def emit_def log_a_def split: sum.splits option.splits)
  done

lemma sendRegistrationId_upnpPort:
  "upnpPort (storage (snd (sendRegistrationId w rid frc c))) = upnpPort (storage c)"
  apply (cases "getAuthority c")
  subgoal for r c1
    using getAuthority_storage [of c]
    by (cases r) (auto simp: sendRegistrationId_def Let_def emit_def log_a_def split: sum.splits option.splits)
  done

lemma resolve_ip_effects: "\<exists>es. effects (snd (resolve_ip w c)) = effects c @ es"
  by (auto simp: resolve_ip_def Let_def emit_def split: sum.splits option.splits)

lemma resolve_ip_storage: "storage (snd (resolve_ip w c)) = storage c"
  by (auto simp: resolve_ip_def Let_def emit_def split: sum.splits option.splits)

lemma after_registration_effects: "effects (snd (after_registration w ip data c)) = effects c"
  by (auto simp: after_registration_def Let_def log_a_def split: sum.splits option.splits)

lemma after_registration_upnpPort:
  "upnpPort (storage (snd (after_registration w ip data c))) = upnpPort (storage c)"
  by (auto simp: after_registration_def Let_def log_a_def split: sum.splits option.splits)

lemma updatePortForward_effects:
  "\<exists>es. effects (snd (updatePortForward w p c)) = effects c @ es"
proof -
  let ?c = "c\<lparr>storage := (storage c)\<lparr>upnpPort := p\<rparr>\<rparr>"
  obtain r c1 where r: "resolve_ip w ?c = (r, c1)" by (cases "resolve_ip w ?c")
  from resolve_ip_effects [of w ?c] r obtain es1 where e1: "effects c1 = effects c @ es1"
    by auto
  obtain r2 c2 where r2: "sendRegistrationId w (manager_registrationId w) False c1 = (r2, c2)"
    by (cases "sendRegistrationId w (manager_registrationId w) False c1")
  from sendRegistrationId_effects [of w "manager_registrationId w" False c1] r2
  obtain es2 where e2: "effects c2 = effects c1 @ es2" by auto
  show ?thesis
    using r r2 e1 e2 
    by (auto simp: updatePortForward_def Let_def after_registration_effects split: sum.splits)
qed

lemma updatePortForward_upnpPort:
  "upnpPort (storage (snd (updatePortForward w p c))) = p"
proof -
  let ?c = "c\<lparr>storage := (storage c)\<lparr>upnpPort := p\<rparr>\<rparr>"
  obtain r c1 where r: "resolve_ip w ?c = (r, c1)" by (cases "resolve_ip w ?c")
  from resolve_ip_storage [of w ?c] r have e1: "upnpPort (storage c1) = p"
    by auto
  obtain r2 c2 where r2: "sendRegistrationId w (manager_registrationId w) False c1 = (r2, c2)"
    by (cases "sendRegistrationId w (manager_registrationId w) False c1")
  from sendRegistrationId_upnpPort [of w "manager_registrationId w" False c1] r2 e1
  have e2: "upnpPort (storage c2) = p" by auto
  show ?thesis
    using r r2 e1 e2 
    by (auto simp: updatePortForward_def Let_def after_registration_upnpPort split: sum.splits)
qed

lemmas example_defs = example_cloud_def example_settings_def example_world_def
  custom_domain_cloud_def disabled_cloud_def disconnected_cloud_def tunnel_cloud_def
  high_random_world_def logged_out_cloud_def

lemmas registration_defs = getAuthority_def computed_port_def computed_hostname_def
  sendRegistrationId_def error_body_def body_error_of_def truthy_str_def truthy_num_def
  js_and_def log_a_def emit_def Let_def empty_authority_def

section \<open>Properties of sendRegistrationId\<close>

text \<open>
  The claim C7 as written fails: with Custom Domain mode and no hostname,
  \<open>sendRegistrationId\<close> throws what \<open>getAuthority\<close> throws; and with the connect
  toggle off it returns its \<open>{error}\<close> object without posting any alert.
\<close>

theorem sendRegistrationId_counterexample:
  "fst (sendRegistrationId example_world ''fcm-registration'' False (custom_domain_cloud None)) =
     Inl (Error ''Hostname is required for port Custom Domain setup.'') \<and>
   \<not> connectHomeScryptedApp (storage disconnected_cloud) \<and>
   fst (sendRegistrationId example_world ''fcm-registration'' False disconnected_cloud) =
     Inr (Some (error_body ''Scrypted Cloud connection to home.scrypted.app is disabled.'')) \<and>
   alerts (snd (sendRegistrationId example_world ''fcm-registration'' False disconnected_cloud)) = []"
  by (simp add: example_defs registration_defs)

text \<open>
  C7, amended. \<open>sendRegistrationId\<close> throws exactly when \<open>getAuthority\<close> throws, and
  the same error. When \<open>getAuthority\<close> returns an authority: with the connect toggle
  off, the result is an \<open>{error}\<close> object and nothing else happens (no alert, no relay
  call); with the toggle on and no bearer token, the result is an \<open>{error}\<close> object and
  the login alert is posted; with the toggle on, a token, and a relay response that
  carries no error, the response is returned and the registration id and the authority's
  \<open>upnp_port\<close> are persisted as the new baseline.
\<close>

theorem sendRegistrationId_outcomes:
  "(fst (sendRegistrationId w rid frc c) = Inl e \<longleftrightarrow> fst (getAuthority c) = Inl e) \<and>
   (getAuthority c = (Inr a, c) \<longrightarrow>
      (\<not> connectHomeScryptedApp (storage c) \<longrightarrow>
         sendRegistrationId w rid frc c =
           (Inr (Some (error_body
              (''Scrypted Cloud connection to '' @ SCRYPTED_SERVER w @ '' is disabled.''))), c)) \<and>
      (connectHomeScryptedApp (storage c) \<and> \<not> truthy_str (token_info (storage c)) \<longrightarrow>
         sendRegistrationId w rid frc c =
           (Inr (Some (error_body login_alert)), c\<lparr>alerts := alerts c @ [login_alert]\<rparr>)) \<and>
      (connectHomeScryptedApp (storage c) \<and> truthy_str (token_info (storage c)) \<and>
       fetch_register w = Inr body \<and> \<not> truthy_str (body_error_of body) \<longrightarrow>
         fst (sendRegistrationId w rid frc c) = Inr body \<and>
         lastPersistedRegistrationId (storage (snd (sendRegistrationId w rid frc c))) = Some rid \<and>
         lastPersistedUpnpPort (storage (snd (sendRegistrationId w rid frc c))) = upnp_port a))"
  using sendRegistrationId_throws [of w rid frc c e]
    sendRegistrationId_disconnected [of c a w rid frc]
    sendRegistrationId_not_logged_in [of c a w rid frc]
    sendRegistrationId_success [of c a w body rid frc]
  unfolding log_a_def by blast

theorem sendRegistrationId_outcomes_witness:
  "fst (getAuthority (custom_domain_cloud None)) =
     Inl (Error ''Hostname is required for port Custom Domain setup.'') \<and>
   fst (sendRegistrationId example_world ''fcm-registration'' False (custom_domain_cloud None)) =
     Inl (Error ''Hostname is required for port Custom Domain setup.'') \<and>
   getAuthority disconnected_cloud =
     (Inr \<lparr>upnp_port = None, port = None, authority_hostname = None\<rparr>, disconnected_cloud) \<and>
   \<not> connectHomeScryptedApp (storage disconnected_cloud) \<and>
   sendRegistrationId example_world ''fcm-registration'' False disconnected_cloud =
     (Inr (Some (error_body ''Scrypted Cloud connection to home.scrypted.app is disabled.'')),
      disconnected_cloud) \<and>
   getAuthority logged_out_cloud =
     (Inr \<lparr>upnp_port = None, port = None, authority_hostname = None\<rparr>, logged_out_cloud) \<and>
   connectHomeScryptedApp (storage logged_out_cloud) \<and>
   \<not> truthy_str (token_info (storage logged_out_cloud)) \<and>
   sendRegistrationId example_world ''fcm-registration'' False logged_out_cloud =
     (Inr (Some (error_body login_alert)), logged_out_cloud\<lparr>alerts := [login_alert]\<rparr>) \<and>
   getAuthority (custom_domain_cloud (Some ''cam.example.com'')) =
     (Inr \<lparr>upnp_port = Some 443, port = Some 443, authority_hostname = Some ''cam.example.com''\<rparr>,
      custom_domain_cloud (Some ''cam.example.com'')) \<and>
   connectHomeScryptedApp (storage (custom_domain_cloud (Some ''cam.example.com''))) \<and>
   truthy_str (token_info (storage (custom_domain_cloud (Some ''cam.example.com'')))) \<and>
   fetch_register example_world =
     Inr (Some \<lparr>body_error = None, ip_address = Some ''203.0.113.7''\<rparr>) \<and>
   \<not> truthy_str (body_error_of (Some \<lparr>body_error = None, ip_address = Some ''203.0.113.7''\<rparr>)) \<and>
   lastPersistedRegistrationId (storage (snd (sendRegistrationId example_world
      ''fcm-registration'' False (custom_domain_cloud (Some ''cam.example.com''))))) =
     Some ''fcm-registration'' \<and>
   lastPersistedUpnpPort (storage (snd (sendRegistrationId example_world
      ''fcm-registration'' False (custom_domain_cloud (Some ''cam.example.com''))))) = Some 443"
  using sendRegistrationId_outcomes [of example_world "''fcm-registration''" False
      "custom_domain_cloud None" "Error ''Hostname is required for port Custom Domain setup.''"]
    sendRegistrationId_outcomes [of example_world "''fcm-registration''" False
      disconnected_cloud _ "\<lparr>upnp_port = None, port = None, authority_hostname = None\<rparr>"]
    sendRegistrationId_outcomes [of example_world "''fcm-registration''" False
      logged_out_cloud _ "\<lparr>upnp_port = None, port = None, authority_hostname = None\<rparr>"]
    sendRegistrationId_outcomes [of example_world "''fcm-registration''" False
      "custom_domain_cloud (Some ''cam.example.com'')" _
      "\<lparr>upnp_port = Some 443, port = Some 443, authority_hostname = Some ''cam.example.com''\<rparr>"
      "Some \<lparr>body_error = None, ip_address = Some ''203.0.113.7''\<rparr>"]
  by (simp add: example_defs registration_defs)

section \<open>Properties of refreshPortForward and updatePortForward\<close>

lemmas forward_defs = updatePortForward_def resolve_ip_def cloudflareTunnelHost_def
  compared_port_def after_registration_def refreshPortForward_def chosen_port_def
  random_port_def Math_round_def first_local_address_def verify_alert_def
  str_or_undefined_def plain_URL_host_def DEFAULT_SENDER_ID_def



lemma upnp_refresh_effects:
  assumes "forwardingMode (storage c) = UPNP" and "chosen_port w (storage c) \<noteq> 443"
    and "first_local_address w = Some a" and "a \<noteq> []"
  shows "take (Suc (length (effects c))) (effects (snd (refreshPortForward w c))) =
     effects c @ [UpnpPortMapping (chosen_port w (storage c)) a (this_securePort c) 1800]"
proof (cases "portMapping_err w")
  case True
  with assms show ?thesis
    by (simp add: refreshPortForward_def Let_def emit_def log_a_def)
next
  case False
  let ?p = "chosen_port w (storage c)"
  let ?c1 = "(emit (UpnpPortMapping ?p a (this_securePort c) 1800) c)\<lparr>upnpStatus := ''Active''\<rparr>"
  from updatePortForward_effects [of w "Some ?p" ?c1]
  obtain es where "effects (snd (updatePortForward w (Some ?p) ?c1)) = effects ?c1 @ es"
    by blast
  with assms False show ?thesis
    by (simp add: refreshPortForward_def Let_def emit_def)
qed

lemma upnp_refresh_storage:
  assumes "forwardingMode (storage c) = UPNP" and "chosen_port w (storage c) \<noteq> 443"
    and "first_local_address w = Some a" and "a \<noteq> []"
  shows "\<not> portMapping_err w \<longrightarrow>
           upnpPort (storage (snd (refreshPortForward w c))) = Some (chosen_port w (storage c))"
    and "portMapping_err w \<longrightarrow> storage (snd (refreshPortForward w c)) = storage c"
  using assms
  by (simp_all add: refreshPortForward_def Let_def emit_def log_a_def updatePortForward_upnpPort)

lemma random_port_bounds:
  assumes "0 \<le> Math_random w" and "Math_random w < 1"
  shows "40000 \<le> random_port w" and "random_port w \<le> 60000"
proof -
  let ?x = "Math_random w * 20000 + 40000 + 1 / 2"
  from assms have "(40000::real) \<le> ?x" by simp
  then have "\<lfloor>40000::real\<rfloor> \<le> \<lfloor>?x\<rfloor>" by (rule floor_mono)
  then show "40000 \<le> random_port w" by (simp add: random_port_def Math_round_def)
  from assms have "?x < 60001" by simp
  then have "\<lfloor>?x\<rfloor> < 60001" by (simp add: floor_less_iff)
  then show "random_port w \<le> 60000" by (simp add: random_port_def Math_round_def)
qed

subsection \<open>Disabled mode\<close>




subsection \<open>The UPnP mapping\<close>

text \<open>
  The claim C8 as written fails on the renewal period: the timer fires every
  \<open>30 * 60 * 1000\<close> ms, which is the lease time of 1800 s itself, not less.
\<close>

theorem upnp_mapping_counterexample:
  "effects (snd (refreshPortForward example_world example_cloud)) ! 0 =
     UpnpPortMapping 50000 ''192.168.1.10'' (Some 10443) 1800 \<and>
   \<not> upnpInterval_ms < 1000 * 1800"
  by (simp add: example_defs registration_defs forward_defs upnpInterval_ms_def)

text \<open>
  C8, amended. In UPNP mode, with a local port other than 443 and a local address
  configured, \<open>refreshPortForward\<close> requests one mapping before anything else it sends:
  public port the local port, private target the local address and \<open>this.securePort\<close>,
  ttl 1800 seconds. The request is repeated every 30 minutes, a period equal to the ttl.
\<close>

theorem upnp_mapping_request:
  "forwardingMode (storage c) = UPNP \<Longrightarrow> chosen_port w (storage c) \<noteq> 443 \<Longrightarrow>
   first_local_address w = Some a \<Longrightarrow> a \<noteq> [] \<Longrightarrow>
   take (Suc (length (effects c))) (effects (snd (refreshPortForward w c))) =
     effects c @ [UpnpPortMapping (chosen_port w (storage c)) a (this_securePort c) 1800] \<and>
   upnpInterval_ms = 30 * 60 * 1000 \<and> upnpInterval_ms = 1000 * 1800"
  using upnp_refresh_effects [of c w a] by (simp add: upnpInterval_ms_def)

theorem upnp_mapping_request_witness:
  "forwardingMode (storage example_cloud) = UPNP \<and>
   chosen_port example_world (storage example_cloud) = 50000 \<and>
   first_local_address example_world = Some ''192.168.1.10'' \<and>
   take 1 (effects (snd (refreshPortForward example_world example_cloud))) =
     [UpnpPortMapping 50000 ''192.168.1.10'' (Some 10443) 1800] \<and>
   upnpInterval_ms = 1000 * 1800"
  using upnp_mapping_request [of example_cloud example_world "''192.168.1.10''"]
  by (simp add: example_defs chosen_port_def truthy_num_def random_port_def Math_round_def
      first_local_address_def)

subsection \<open>The random port\<close>

text \<open>
  The claim C3 as written fails twice. \<open>Math.round\<close> rounds up, so a value of
  \<open>Math.random()\<close> close to 1 gives the port 60000; here \<open>Math.random()\<close> is
  \<open>1 - 2^-20\<close>, for which \<open>Math.random() * 20000 + 40000\<close> is 59999.98 and is computed
  exactly in double precision. And the private port of the mapping is
  \<open>this.securePort\<close> (10443 here), not the chosen port.
\<close>

theorem random_port_counterexample:
  "forwardingMode (storage example_cloud) = UPNP \<and> upnpPort (storage example_cloud) = None \<and>
   0 \<le> Math_random high_random_world \<and> Math_random high_random_world < 1 \<and>
   effects (snd (refreshPortForward high_random_world example_cloud)) ! 0 =
     UpnpPortMapping 60000 ''192.168.1.10'' (Some 10443) 1800 \<and>
   upnpPort (storage (snd (refreshPortForward high_random_world example_cloud))) = Some 60000"
  by (simp add: example_defs registration_defs forward_defs)

text \<open>
  C3, amended. In UPNP mode with no persisted \<open>upnpPort\<close> (undefined or 0), a value of
  \<open>Math.random()\<close> in \<open>[0, 1)\<close> and a local address configured, the port chosen is
  \<open>Math.round(Math.random() * 20000 + 40000)\<close>, between 40000 and 60000. It is the
  public port of the mapping requested, whose private port is \<open>this.securePort\<close>. When
  the router accepts the mapping the port is persisted as \<open>upnpPort\<close>, and every later
  run uses it whatever \<open>Math.random()\<close> returns then; when the router refuses the
  mapping the settings are left as they were. The arithmetic is modelled over the reals.
\<close>

theorem random_port_chosen:
  "forwardingMode (storage c) = UPNP \<Longrightarrow> \<not> truthy_num (upnpPort (storage c)) \<Longrightarrow>
   0 \<le> Math_random w \<Longrightarrow> Math_random w < 1 \<Longrightarrow>
   first_local_address w = Some a \<Longrightarrow> a \<noteq> [] \<Longrightarrow>
   40000 \<le> random_port w \<and> random_port w \<le> 60000 \<and>
   take (Suc (length (effects c))) (effects (snd (refreshPortForward w c))) =
     effects c @ [UpnpPortMapping (random_port w) a (this_securePort c) 1800] \<and>
   (\<not> portMapping_err w \<longrightarrow>
      upnpPort (storage (snd (refreshPortForward w c))) = Some (random_port w) \<and>
      chosen_port w' (storage (snd (refreshPortForward w c))) = random_port w) \<and>
   (portMapping_err w \<longrightarrow> storage (snd (refreshPortForward w c)) = storage c)"
proof -
  assume m: "forwardingMode (storage c) = UPNP" and n: "\<not> truthy_num (upnpPort (storage c))"
    and r: "0 \<le> Math_random w" "Math_random w < 1"
    and a: "first_local_address w = Some a" "a \<noteq> []"
  from n have cp: "chosen_port w (storage c) = random_port w"
    by (simp add: chosen_port_def)
  from random_port_bounds [OF r] have b: "40000 \<le> random_port w" "random_port w \<le> 60000" .
  then have ne: "chosen_port w (storage c) \<noteq> 443" using cp by simp
  have s: "\<not> portMapping_err w \<longrightarrow>
      chosen_port w' (storage (snd (refreshPortForward w c))) = random_port w"
    using upnp_refresh_storage(1) [OF m ne a] cp b
    by (simp add: chosen_port_def truthy_num_def)
  show ?thesis
    using b s upnp_refresh_effects [OF m ne a] upnp_refresh_storage [OF m ne a] cp
    by simp
qed

theorem random_port_chosen_witness:
  "forwardingMode (storage example_cloud) = UPNP \<and>
   \<not> truthy_num (upnpPort (storage example_cloud)) \<and>
   0 \<le> Math_random example_world \<and> Math_random example_world < 1 \<and>
   first_local_address example_world = Some ''192.168.1.10'' \<and>
   random_port example_world = 50000 \<and>
   take 1 (effects (snd (refreshPortForward example_world example_cloud))) =
     [UpnpPortMapping 50000 ''192.168.1.10'' (Some 10443) 1800] \<and>
   \<not> portMapping_err example_world \<and>
   upnpPort (storage (snd (refreshPortForward example_world example_cloud))) = Some 50000 \<and>
   chosen_port high_random_world (storage (snd (refreshPortForward example_world example_cloud))) = 50000 \<and>
   0 \<le> Math_random refusing_world \<and> Math_random refusing_world < 1 \<and>
   first_local_address refusing_world = Some ''192.168.1.10'' \<and>
   portMapping_err refusing_world \<and>
   storage (snd (refreshPortForward refusing_world example_cloud)) = storage example_cloud"
  using random_port_chosen [of example_cloud example_world "''192.168.1.10''" high_random_world]
    random_port_chosen [of example_cloud refusing_world "''192.168.1.10''" high_random_world]
  by (simp add: example_defs refusing_world_def truthy_num_def random_port_def Math_round_def
      first_local_address_def)

subsection \<open>Change suppression\<close>

lemma resolve_ip_registrations:
  "relay_registrations (snd (resolve_ip w c)) = relay_registrations c"
  by (auto simp: resolve_ip_def relay_registrations_def Let_def emit_def split: sum.splits option.splits)

lemma after_registration_registrations:
  "relay_registrations (snd (after_registration w ip data c)) = relay_registrations c"
  by (simp add: relay_registrations_def after_registration_effects)

lemma updatePortForward_same_pair:
  assumes "fst (resolve_ip w (c\<lparr>storage := (storage c)\<lparr>upnpPort := p\<rparr>\<rparr>)) = Inr ip"
    and "lastPersistedUpnpPort (storage c) = compared_port w p c"
    and "lastPersistedIp (storage c) = ip"
  shows "relay_registrations (snd (updatePortForward w p c)) = relay_registrations c"
proof -
  let ?c = "c\<lparr>storage := (storage c)\<lparr>upnpPort := p\<rparr>\<rparr>"
  obtain c1 where r: "resolve_ip w ?c = (Inr ip, c1)"
    using assms(1) by (cases "resolve_ip w ?c") auto
  have s: "storage c1 = storage ?c" using resolve_ip_storage [of w ?c] r by simp
  have t: "compared_port w p c1 = compared_port w p c"
    using r by (auto simp: compared_port_def cloudflareTunnelHost_def resolve_ip_def Let_def emit_def
        split: if_splits option.splits sum.splits)
  have "updatePortForward w p c = (Inr (), c1)"
    using r s t assms(2,3) by (simp add: updatePortForward_def Let_def)
  moreover have "relay_registrations c1 = relay_registrations ?c"
    using resolve_ip_registrations [of w ?c] r by simp
  ultimately show ?thesis by (simp add: relay_registrations_def)
qed

lemma resolve_ip_depends:
  assumes "forwardingMode (storage c') = forwardingMode (storage c)"
    and "hostname (storage c') = hostname (storage c)"
    and "duckDnsHostname (storage c') = duckDnsHostname (storage c)"
    and "duckDnsToken (storage c') = duckDnsToken (storage c)"
    and "cloudflareTunnel c' = cloudflareTunnel c"
  shows "fst (resolve_ip w c') = fst (resolve_ip w c)"
  using assms
  by (auto simp: resolve_ip_def cloudflareTunnelHost_def Let_def split: sum.splits option.splits)

lemma resolve_ip_tunnel: "cloudflareTunnel (snd (resolve_ip w c)) = cloudflareTunnel c"
  by (auto simp: resolve_ip_def Let_def emit_def split: sum.splits option.splits)

lemma getAuthority_depends:
  "storage c' = storage c \<Longrightarrow> fst (getAuthority c') = fst (getAuthority c)"
  by (simp add: getAuthority_def Let_def)

lemma getAuthority_Inr: "fst (getAuthority c) = Inr a \<Longrightarrow> getAuthority c = (Inr a, c)"
  by (auto simp: getAuthority_def Let_def split: if_splits)

lemma getAuthority_upnp_port:
  "fst (getAuthority c) = Inr a \<Longrightarrow> forwardingMode (storage c) \<noteq> Disabled \<Longrightarrow>
   upnp_port a = computed_port (storage c)"
  by (auto simp: getAuthority_def Let_def split: if_splits)

lemma sendRegistrationId_registered:
  assumes "fst (getAuthority c) = Inr a" and "connectHomeScryptedApp (storage c)"
    and "token_info (storage c) = Some tok" and "tok \<noteq> []"
    and "fetch_register w = Inr body" and "\<not> truthy_str (body_error_of body)"
  shows "sendRegistrationId w rid frc c =
     (Inr body,
      c\<lparr>effects := effects c @ [RelayRegister
            \<lparr>q_authority = a, registration_id = rid, server_id = serverId (storage c),
             server_name = serverName (storage c), sender_id = DEFAULT_SENDER_ID,
             registration_secret = registrationSecret (storage c),
             force = (if frc then ''true'' else [])\<rparr> tok],
         storage := (storage c)\<lparr>lastPersistedRegistrationId := Some rid,
                                 lastPersistedUpnpPort := upnp_port a\<rparr>\<rparr>)"
  using getAuthority_Inr [OF assms(1)] assms(2-)
  by (simp add: sendRegistrationId_def Let_def emit_def)

lemma after_registration_no_tunnel:
  assumes "cloudflareTunnel c = None"
  shows "fst (after_registration w ip (Some d) c) = Inr ()"
    and "storage (snd (after_registration w ip (Some d) c)) = (storage c)\<lparr>lastPersistedIp := ip\<rparr>"
    and "cloudflareTunnel (snd (after_registration w ip (Some d) c)) = None"
  using assms
  by (simp_all add: after_registration_def cloudflareTunnelHost_def truthy_str_def Let_def log_a_def)

lemma compared_port_no_tunnel:
  "cloudflareTunnel c = None \<Longrightarrow> forwardingMode (storage c) \<noteq> Disabled \<Longrightarrow>
   compared_port w p c = computed_port ((storage c)\<lparr>upnpPort := p\<rparr>)"
  by (simp add: compared_port_def cloudflareTunnelHost_def truthy_str_def computed_port_def)

lemma updatePortForward_first_run:
  assumes m: "forwardingMode (storage c) \<noteq> Disabled" and t: "cloudflareTunnel c = None"
    and r: "fst (resolve_ip w (c\<lparr>storage := (storage c)\<lparr>upnpPort := p\<rparr>\<rparr>)) = Inr ip"
    and g: "fst (getAuthority (c\<lparr>storage := (storage c)\<lparr>upnpPort := p\<rparr>\<rparr>)) = Inr a"
    and k: "connectHomeScryptedApp (storage c)" "token_info (storage c) = Some tok" "tok \<noteq> []"
    and f: "fetch_register w = Inr (Some d)" "\<not> truthy_str (body_error d)"
    and d: "lastPersistedUpnpPort (storage c) \<noteq> compared_port w p c \<or>
            lastPersistedIp (storage c) \<noteq> ip"
  shows "storage (snd (updatePortForward w p c)) =
           (storage c)\<lparr>upnpPort := p, lastPersistedRegistrationId := Some (manager_registrationId w),
                        lastPersistedUpnpPort := compared_port w p c, lastPersistedIp := ip\<rparr>"
    and "cloudflareTunnel (snd (updatePortForward w p c)) = None"
    and "relay_registrations (snd (updatePortForward w p c)) = Suc (relay_registrations c)"
proof -
  let ?c = "c\<lparr>storage := (storage c)\<lparr>upnpPort := p\<rparr>\<rparr>"
  let ?rid = "manager_registrationId w"
  obtain c1 where r1: "resolve_ip w ?c = (Inr ip, c1)"
    using r by (cases "resolve_ip w ?c") auto
  have s1: "storage c1 = storage ?c" using resolve_ip_storage [of w ?c] r1 by simp
  have t1: "cloudflareTunnel c1 = None" using resolve_ip_tunnel [of w ?c] r1 t by simp
  have n1: "relay_registrations c1 = relay_registrations c"
    using resolve_ip_registrations [of w ?c] r1 by (simp add: relay_registrations_def)
  have g1: "fst (getAuthority c1) = Inr a" using getAuthority_depends [OF s1] g by simp
  have cp: "compared_port w p c1 = compared_port w p c"
    using t t1 s1 by (simp add: compared_port_def cloudflareTunnelHost_def)
  have ua: "upnp_port a = compared_port w p c"
    using getAuthority_upnp_port [OF g1] m s1 compared_port_no_tunnel [OF t m, of w p] by simp
  have be: "\<not> truthy_str (body_error_of (Some d))" using f(2) by (simp add: body_error_of_def)
  obtain c2 where r2: "sendRegistrationId w ?rid False c1 = (Inr (Some d), c2)"
    and s2: "storage c2 = (storage c1)\<lparr>lastPersistedRegistrationId := Some ?rid,
                                       lastPersistedUpnpPort := upnp_port a\<rparr>"
    and t2: "cloudflareTunnel c2 = None"
    and n2: "relay_registrations c2 = Suc (relay_registrations c1)"
    using sendRegistrationId_registered [OF g1 _ _ k(3) f(1) be, of ?rid False] k(1,2) s1 t1
    by (simp add: relay_registrations_def)
  have d1: "lastPersistedUpnpPort (storage c1) \<noteq> compared_port w p c1 \<or>
            ip \<noteq> lastPersistedIp (storage c1)"
    using d s1 cp by auto
  have u: "updatePortForward w p c = after_registration w ip (Some d) c2"
    using r1 r2 d1 be by (simp add: updatePortForward_def Let_def)
  show "storage (snd (updatePortForward w p c)) =
           (storage c)\<lparr>upnpPort := p, lastPersistedRegistrationId := Some (manager_registrationId w),
                        lastPersistedUpnpPort := compared_port w p c, lastPersistedIp := ip\<rparr>"
    using u after_registration_no_tunnel(2) [OF t2, of w ip d] s2 s1 ua by simp
  show "cloudflareTunnel (snd (updatePortForward w p c)) = None"
    using u after_registration_no_tunnel(3) [OF t2, of w ip d] by simp
  show "relay_registrations (snd (updatePortForward w p c)) = Suc (relay_registrations c)"
    using u after_registration_registrations [of w ip "Some d" c2] n2 n1 by simp
qed

lemma updatePortForward_two_runs:
  assumes m: "forwardingMode (storage c) \<noteq> Disabled" and t: "cloudflareTunnel c = None"
    and r: "fst (resolve_ip w (c\<lparr>storage := (storage c)\<lparr>upnpPort := p\<rparr>\<rparr>)) = Inr ip"
    and g: "fst (getAuthority (c\<lparr>storage := (storage c)\<lparr>upnpPort := p\<rparr>\<rparr>)) = Inr a"
    and k: "connectHomeScryptedApp (storage c)" "token_info (storage c) = Some tok" "tok \<noteq> []"
    and f: "fetch_register w = Inr (Some d)" "\<not> truthy_str (body_error d)"
    and d: "lastPersistedUpnpPort (storage c) \<noteq> compared_port w p c \<or>
            lastPersistedIp (storage c) \<noteq> ip"
  shows "relay_registrations (snd (updatePortForward w p (snd (updatePortForward w p c)))) =
           Suc (relay_registrations c)"
proof -
  let ?c' = "snd (updatePortForward w p c)"
  note fr = updatePortForward_first_run [OF assms]
  have r': "fst (resolve_ip w (?c'\<lparr>storage := (storage ?c')\<lparr>upnpPort := p\<rparr>\<rparr>)) = Inr ip"
    using resolve_ip_depends [of "?c'\<lparr>storage := (storage ?c')\<lparr>upnpPort := p\<rparr>\<rparr>"
        "c\<lparr>storage := (storage c)\<lparr>upnpPort := p\<rparr>\<rparr>" w] fr(1,2) t r by simp
  have cp: "compared_port w p ?c' = compared_port w p c"
    using fr(1,2) t by (simp add: compared_port_def cloudflareTunnelHost_def)
  have "relay_registrations (snd (updatePortForward w p ?c')) = relay_registrations ?c'"
    using updatePortForward_same_pair [OF r'] fr(1) cp by simp
  with fr(3) show ?thesis by simp
qed

lemma sendRegistrationId_sends:
  assumes "fst (getAuthority c) = Inr a" and "connectHomeScryptedApp (storage c)"
    and "token_info (storage c) = Some tok" and "tok \<noteq> []"
  shows "effects (snd (sendRegistrationId w rid frc c)) =
     effects c @ [RelayRegister
            \<lparr>q_authority = a, registration_id = rid, server_id = serverId (storage c),
             server_name = serverName (storage c), sender_id = DEFAULT_SENDER_ID,
             registration_secret = registrationSecret (storage c),
             force = (if frc then ''true'' else [])\<rparr> tok]"
  using getAuthority_Inr [OF assms(1)] assms(2-)
  by (auto simp: sendRegistrationId_def Let_def emit_def log_a_def split: sum.splits)

lemma sendRegistrationId_silent:
  assumes "\<not> connectHomeScryptedApp (storage c) \<or> \<not> truthy_str (token_info (storage c))"
  shows "effects (snd (sendRegistrationId w rid frc c)) = effects c"
proof (cases "getAuthority c")
  case (Pair r c1)
  then have "effects c1 = effects c" using getAuthority_effects [of c] by simp
  moreover have "storage c1 = storage c" using getAuthority_storage [of c] Pair by simp
  ultimately show ?thesis
    using Pair assms
    by (cases r)
      (auto simp: sendRegistrationId_def Let_def log_a_def truthy_str_def split: option.splits)
qed

lemma updatePortForward_changed_pair:
  assumes "fst (resolve_ip w (c\<lparr>storage := (storage c)\<lparr>upnpPort := p\<rparr>\<rparr>)) = Inr ip"
    and "lastPersistedUpnpPort (storage c) \<noteq> compared_port w p c \<or>
         lastPersistedIp (storage c) \<noteq> ip"
  shows "effects (snd (updatePortForward w p c)) =
         effects (snd (sendRegistrationId w (manager_registrationId w) False
           (snd (resolve_ip w (c\<lparr>storage := (storage c)\<lparr>upnpPort := p\<rparr>\<rparr>)))))"
proof -
  let ?c = "c\<lparr>storage := (storage c)\<lparr>upnpPort := p\<rparr>\<rparr>"
  obtain c1 where r: "resolve_ip w ?c = (Inr ip, c1)"
    using assms(1) by (cases "resolve_ip w ?c") auto
  have s: "storage c1 = storage ?c" using resolve_ip_storage [of w ?c] r by simp
  have t: "compared_port w p c1 = compared_port w p c"
    using r by (auto simp: compared_port_def cloudflareTunnelHost_def resolve_ip_def Let_def emit_def
        split: if_splits option.splits sum.splits)
  obtain r2 c2 where r2: "sendRegistrationId w (manager_registrationId w) False c1 = (r2, c2)"
    by (cases "sendRegistrationId w (manager_registrationId w) False c1")
  show ?thesis
    using r r2 s t assms(2)
    by (cases r2) (auto simp: updatePortForward_def Let_def after_registration_effects)
qed

text \<open>
  C4: the code diverges from the claim on one of its paths. In UPNP mode with a tunnel
  up, the connect toggle on and a bearer token stored, \<open>updatePortForward(50000)\<close> runs
  twice with the same environment. The port it compares with \<open>lastPersistedUpnpPort\<close>
  is 443 (the tunnel overrides the local \<open>upnpPort\<close>), while the port that
  \<open>sendRegistrationId\<close> persists is the authority's \<open>upnp_port\<close>, 50000. The address is
  the tunnel host in both runs and is persisted by the first. So the second run sees
  the same port and address as the first, finds the persisted port different, and
  registers again: two relay registrations, where the claim says exactly one. Without
  the tunnel, and in Custom Domain mode with the tunnel, the port compared is the port
  persisted and the same two runs register once.
\<close>

theorem change_suppression_divergence:
  "compared_port example_world (Some 50000) tunnel_cloud = Some 443 \<and>
   fst (resolve_ip example_world
      (tunnel_cloud\<lparr>storage := (storage tunnel_cloud)\<lparr>upnpPort := Some 50000\<rparr>\<rparr>)) =
     Inr (Some ''abc.trycloudflare.com'') \<and>
   relay_registrations tunnel_cloud = 0 \<and>
   relay_registrations (snd (updatePortForward example_world (Some 50000) tunnel_cloud)) = 1 \<and>
   lastPersistedUpnpPort
     (storage (snd (updatePortForward example_world (Some 50000) tunnel_cloud))) = Some 50000 \<and>
   lastPersistedIp
     (storage (snd (updatePortForward example_world (Some 50000) tunnel_cloud))) =
     Some ''abc.trycloudflare.com'' \<and>
   compared_port example_world (Some 50000)
     (snd (updatePortForward example_world (Some 50000) tunnel_cloud)) = Some 443 \<and>
   fst (resolve_ip example_world
      (snd (updatePortForward example_world (Some 50000) tunnel_cloud))) =
     Inr (Some ''abc.trycloudflare.com'') \<and>
   relay_registrations (snd (updatePortForward example_world (Some 50000)
      (snd (updatePortForward example_world (Some 50000) tunnel_cloud)))) = 2 \<and>
   relay_registrations (snd (updatePortForward example_world (Some 50000)
      (snd (updatePortForward example_world (Some 50000) example_cloud)))) = 1 \<and>
   relay_registrations (snd (updatePortForward example_world (Some 50000)
      (snd (updatePortForward example_world (Some 50000) custom_domain_tunnel_cloud)))) = 1"
  by (simp add: example_defs registration_defs forward_defs relay_registrations_def
      custom_domain_tunnel_cloud_def)

theorem change_suppression_divergence_witness:
  "relay_registrations (snd (updatePortForward example_world (Some 50000)
      (snd (updatePortForward example_world (Some 50000) tunnel_cloud)))) = 2 \<and>
   relay_registrations (snd (updatePortForward example_world (Some 50000)
      (snd (updatePortForward example_world (Some 50000) example_cloud)))) = 1"
  using change_suppression_divergence by blast

section \<open>Properties of the reverse connection pool\<close>

lemmas relay_defs =
  full_pool_def initial_proxy_def example_target_def example_world_def plain_tls_connect_def
  createReverseConnection_def Set_add_def Set_delete_def on_close_def on_claim_def
  callback_target_def Let_def relay_target_def after_callback_def

lemma create_accepted:
  "accepted w t \<Longrightarrow> pool_ok w s \<Longrightarrow>
   pool_ok w (snd (createReverseConnection w t s)) \<and>
   length (reverseConnections (snd (createReverseConnection w t s))) =
     Suc (length (reverseConnections s)) \<and>
   length (opened (snd (createReverseConnection w t s))) = Suc (length (opened s)) \<and>
   set (reverseConnections (snd (createReverseConnection w t s))) =
     insert (length (opened s)) (set (reverseConnections s)) \<and>
   claimed (snd (createReverseConnection w t s)) = claimed s \<and>
   backoff (snd (createReverseConnection w t s)) = backoff s \<and>
   callback_connects (snd (createReverseConnection w t s)) = callback_connects s"
  by (auto simp: accepted_def pool_ok_def createReverseConnection_def Set_add_def list_all_iff)

lemma create_rejected:
  "tls_connect w (target_port t) (target_host t) = Some e \<Longrightarrow>
   createReverseConnection w t s = (Inl e, s)"
  by (simp add: createReverseConnection_def)

lemma ensure_full:
  "10 \<le> length (reverseConnections s) \<Longrightarrow> ensureReverseConnections w t s = Some s"
  by (subst ensureReverseConnections.simps) simp

lemma ensure_top_up:
  "accepted w t \<Longrightarrow> pool_ok w s \<Longrightarrow>
   \<exists>s'. ensureReverseConnections w t s = Some s' \<and> pool_ok w s' \<and>
     length (reverseConnections s') = max 10 (length (reverseConnections s)) \<and>
     length (opened s') = length (opened s) + (10 - length (reverseConnections s)) \<and>
     set (reverseConnections s) \<subseteq> set (reverseConnections s') \<and>
     set (reverseConnections s') \<subseteq> set (reverseConnections s) \<union> {length (opened s)..} \<and>
     claimed s' = claimed s \<and> backoff s' = backoff s \<and>
     callback_connects s' = callback_connects s"
proof (induction "10 - length (reverseConnections s)" arbitrary: s)
  case 0
  then have "ensureReverseConnections w t s = Some s" by (intro ensure_full) simp
  with 0 show ?case by auto
next
  case (Suc k)
  let ?s1 = "snd (createReverseConnection w t s)"
  note c = create_accepted [OF Suc.prems]
  from Suc.hyps(2) have lt: "length (reverseConnections s) < 10" by simp
  from c Suc.hyps(2) have k: "k = 10 - length (reverseConnections ?s1)" by simp
  from c have ok1: "pool_ok w ?s1" by blast
  from Suc.hyps(1) [OF k Suc.prems(1) ok1] obtain s' where
    s': "ensureReverseConnections w t ?s1 = Some s'" "pool_ok w s'"
      "length (reverseConnections s') = max 10 (length (reverseConnections ?s1))"
      "length (opened s') = length (opened ?s1) + (10 - length (reverseConnections ?s1))"
      "set (reverseConnections ?s1) \<subseteq> set (reverseConnections s')"
      "set (reverseConnections s') \<subseteq> set (reverseConnections ?s1) \<union> {length (opened ?s1)..}"
      "claimed s' = claimed ?s1" "backoff s' = backoff ?s1"
      "callback_connects s' = callback_connects ?s1"
    by blast
  have unf: "ensureReverseConnections w t s = Some s'"
    using lt s'(1) by (subst ensureReverseConnections.simps) simp
  have a: "length (reverseConnections s') = max 10 (length (reverseConnections s))"
    using s'(3) c lt by simp
  have b: "length (opened s') = length (opened s) + (10 - length (reverseConnections s))"
    using s'(4) c lt by simp
  have d: "set (reverseConnections s) \<subseteq> set (reverseConnections s')"
    using s'(5) c by auto
  have e: "set (reverseConnections s') \<subseteq> set (reverseConnections s) \<union> {length (opened s)..}"
    using s'(6) c by auto
  from unf s'(2) a b d e s'(7,8,9) c show ?case by simp
qed

lemma ensure_never:
  assumes "tls_connect w (target_port t) (target_host t) = Some e"
    and "length (reverseConnections s) < 10"
  shows "ensureReverseConnections w t s = None"
proof (rule ccontr)
  assume "ensureReverseConnections w t s \<noteq> None"
  then obtain y where y: "ensureReverseConnections w t s = Some y" by auto
  define P where "P = (\<lambda>(w::world) (t::reverse_target) (s::proxy) (y::proxy).
    tls_connect w (target_port t) (target_host t) = None \<or> 10 \<le> length (reverseConnections s))"
  have "P w t s y"
  proof (rule ensureReverseConnections.raw_induct [where P = P, OF _ y])
    fix ens :: "world \<Rightarrow> reverse_target \<Rightarrow> proxy \<Rightarrow> proxy option"
    fix w t s y
    assume ih: "\<And>t s b y. ens t s b = Some y \<Longrightarrow> P t s b y"
      and eq: "(if length (reverseConnections s) < 10
                then ens w t (snd (createReverseConnection w t s)) else Some s) = Some y"
    show "P w t s y"
    proof (cases "length (reverseConnections s) < 10")
      case True
      with eq have "ens w t (snd (createReverseConnection w t s)) = Some y" by simp
      from ih [OF this] True show ?thesis
        by (auto simp: P_def createReverseConnection_def split: option.splits)
    next
      case False
      then show ?thesis by (simp add: P_def)
    qed
  qed
  with assms show False by (simp add: P_def)
qed


lemma ensure_keeps:
  assumes "ensureReverseConnections w t s = Some s'"
  shows "backoff s' = backoff s \<and> callback_connects s' = callback_connects s \<and>
         claimed s' = claimed s"
proof -
  define P where "P = (\<lambda>(w::world) (t::reverse_target) (s::proxy) (y::proxy).
    backoff y = backoff s \<and> callback_connects y = callback_connects s \<and> claimed y = claimed s)"
  have "P w t s s'"
  proof (rule ensureReverseConnections.raw_induct [where P = P, OF _ assms])
    fix ens :: "world \<Rightarrow> reverse_target \<Rightarrow> proxy \<Rightarrow> proxy option"
    fix w t s y
    assume ih: "\<And>t s b y. ens t s b = Some y \<Longrightarrow> P t s b y"
      and eq: "(if length (reverseConnections s) < 10
                then ens w t (snd (createReverseConnection w t s)) else Some s) = Some y"
    show "P w t s y"
    proof (cases "length (reverseConnections s) < 10")
      case True
      with eq have "ens w t (snd (createReverseConnection w t s)) = Some y" by simp
      from ih [OF this] show ?thesis
        by (auto simp: P_def createReverseConnection_def split: option.splits)
    next
      case False
      with eq show ?thesis by (simp add: P_def)
    qed
  qed
  then show ?thesis by (simp add: P_def)
qed

lemma ensure_result:
  assumes "pool_ok w s" and "ensureReverseConnections w t s = Some s'"
  shows "pool_ok w s' \<and> set (reverseConnections s) \<subseteq> set (reverseConnections s')"
proof (cases "tls_connect w (target_port t) (target_host t)")
  case None
  then have "accepted w t" by (simp add: accepted_def)
  from ensure_top_up [OF this assms(1)] assms(2) show ?thesis by auto
next
  case (Some e)
  have "10 \<le> length (reverseConnections s)"
  proof (rule ccontr)
    assume "\<not> 10 \<le> length (reverseConnections s)"
    then have "ensureReverseConnections w t s = None" by (intro ensure_never [OF Some]) simp
    with assms(2) show False by simp
  qed
  from ensure_full [OF this, of w t] assms show ?thesis by simp
qed

lemma pool_ok_delete:
  "pool_ok w s \<Longrightarrow> pool_ok w (s\<lparr>reverseConnections := Set_delete n (reverseConnections s)\<rparr>)"
  by (auto simp: pool_ok_def Set_delete_def list_all_iff)

lemma opened_accepted: "pool_ok w s \<Longrightarrow> n < length (opened s) \<Longrightarrow> accepted w (opened s ! n)"
  by (simp add: pool_ok_def list_all_length)

lemma on_close_unclaimed:
  assumes "pool_ok w s" and "n \<notin> set (claimed s)"
  shows "\<exists>s'. on_close w n s = Some s' \<and> pool_ok w s' \<and>
           reverseConnections s' = Set_delete n (reverseConnections s) \<and> opened s' = opened s"
proof (cases "n < length (opened s)")
  case True
  with assms pool_ok_delete [OF assms(1), of n] show ?thesis
    by (simp add: on_close_def Let_def)
next
  case False
  then have "Set_delete n (reverseConnections s) = reverseConnections s"
    using assms(1) by (auto simp: pool_ok_def list_all_iff Set_delete_def filter_id_conv)
  with False assms(1) show ?thesis by (simp add: on_close_def)
qed

lemma on_close_claimed:
  assumes "pool_ok w s" and "n \<in> set (claimed s)" and "n < length (opened s)"
  shows "\<exists>s'. on_close w n s = Some s' \<and> pool_ok w s' \<and>
           n \<notin> set (reverseConnections s') \<and> 10 \<le> length (reverseConnections s') \<and>
           length (opened s') =
             length (opened s) + (10 - length (Set_delete n (reverseConnections s)))"
proof -
  let ?s1 = "s\<lparr>reverseConnections := Set_delete n (reverseConnections s)\<rparr>"
  have c: "on_close w n s = ensureReverseConnections w (opened s ! n) ?s1"
    using assms(2,3) by (simp add: on_close_def Let_def)
  have ok1: "pool_ok w ?s1" using assms(1) by (rule pool_ok_delete)
  have n1: "n \<notin> set (reverseConnections ?s1)" by (simp add: Set_delete_def)
  from ensure_top_up [OF opened_accepted [OF assms(1,3)] ok1] obtain s' where
    s': "ensureReverseConnections w (opened s ! n) ?s1 = Some s'" "pool_ok w s'"
      "length (reverseConnections s') = max 10 (length (reverseConnections ?s1))"
      "length (opened s') = length (opened ?s1) + (10 - length (reverseConnections ?s1))"
      "set (reverseConnections s') \<subseteq> set (reverseConnections ?s1) \<union> {length (opened ?s1)..}"
    by blast
  from s'(5) n1 assms(3) have "n \<notin> set (reverseConnections s')" by auto
  with s' c show ?thesis by simp
qed

lemma on_close_returns:
  assumes "pool_ok w s"
  shows "\<exists>s'. on_close w n s = Some s' \<and> pool_ok w s' \<and> n \<notin> set (reverseConnections s')"
proof (cases "n \<in> set (claimed s) \<and> n < length (opened s)")
  case True
  with on_close_claimed [OF assms, of n] show ?thesis by blast
next
  case False
  show ?thesis
  proof (cases "n < length (opened s)")
    case True
    with False have "n \<notin> set (claimed s)" by simp
    from on_close_unclaimed [OF assms this] show ?thesis
      by (auto simp: Set_delete_def)
  next
    case False
    then have "n \<notin> set (reverseConnections s)"
      using assms by (auto simp: pool_ok_def list_all_iff)
    with False assms show ?thesis by (simp add: on_close_def)
  qed
qed

lemma on_message_result:
  assumes "pool_ok w s" and "on_message w now m s = Some (r, s')"
  shows "pool_ok w s' \<and> set (reverseConnections s) \<subseteq> set (reverseConnections s')"
proof (cases m)
  case (Callback address)
  show ?thesis
  proof (cases "now < backoff s + 5000")
    case True
    with assms Callback show ?thesis by (simp add: on_message_def)
  next
    case False
    let ?t = "callback_target w address"
    let ?s1 = "s\<lparr>backoff := now\<rparr>"
    have ok1: "pool_ok w ?s1" using assms(1) by (simp add: pool_ok_def)
    from assms(2) Callback False obtain s2 where
      e: "ensureReverseConnections w ?t ?s1 = Some s2"
      by (auto simp: on_message_def Let_def split: option.splits)
    note r = ensure_result [OF ok1 e]
    show ?thesis
    proof (cases "tls_connect w (target_port ?t) (target_host ?t)")
      case None
      with assms(2) Callback False e
      have "s' = s2\<lparr>callback_connects := callback_connects s2 @ [?t]\<rparr>"
        by (simp add: on_message_def Let_def)
      with r None show ?thesis by (simp add: pool_ok_def accepted_def)
    next
      case (Some err)
      with assms(2) Callback False e have "s' = s2" by (simp add: on_message_def Let_def)
      with r show ?thesis by simp
    qed
  qed
next
  case (CloudMessage x)
  with assms show ?thesis by (simp add: on_message_def)
next
  case OtherMessage
  with assms show ?thesis by (simp add: on_message_def)
qed

lemma pool_ok_handle:
  assumes "pool_ok w s" and "handle w e s = Some s'"
  shows "pool_ok w s'"
proof (cases e)
  case (SocketClosed n)
  with on_close_returns [OF assms(1), of n] assms(2) show ?thesis by auto
next
  case (ClaimLineRead n)
  with assms show ?thesis by (auto simp: on_claim_def pool_ok_def)
next
  case (ReadLineFailed n)
  with assms show ?thesis by simp
next
  case (PushMessage now m)
  with assms(2) obtain r where "on_message w now m s = Some (r, s')" by auto
  from on_message_result [OF assms(1) this] show ?thesis by simp
next
  case (MuxHandshake t)
  show ?thesis
  proof (cases "t \<in> set (callback_connects s)")
    case True
    with assms(2) MuxHandshake have "ensureReverseConnections w t s = Some s'" by simp
    from ensure_result [OF assms(1) this] show ?thesis by simp
  next
    case False
    with assms MuxHandshake show ?thesis by simp
  qed
qed

lemma pool_ok_initial: "pool_ok w initial_proxy"
  by (simp add: pool_ok_def initial_proxy_def)

lemma pool_ok_run_from: "pool_ok w s \<Longrightarrow> run w es s = Some s' \<Longrightarrow> pool_ok w s'"
proof (induction es arbitrary: s)
  case Nil
  then show ?case by simp
next
  case (Cons e es)
  from Cons.prems(2) obtain s1 where h: "handle w e s = Some s1" and r: "run w es s1 = Some s'"
    by (auto split: option.splits)
  from Cons.IH [OF pool_ok_handle [OF Cons.prems(1) h] r] show ?case .
qed

lemma pool_ok_run: "run w es initial_proxy = Some s \<Longrightarrow> pool_ok w s"
  by (rule pool_ok_run_from [OF pool_ok_initial])






section \<open>Properties of the callback handler\<close>

lemma on_message_dropped:
  "now < backoff s + 5000 \<Longrightarrow> on_message w now (Callback a) s = Some (Inr (), s)"
  by (simp add: on_message_def)

lemma on_message_handled:
  assumes "\<not> now < backoff s + 5000" and "on_message w now (Callback a) s = Some (r, s')"
  shows "backoff s' = now"
    and "r = Inr () \<longrightarrow> callback_connects s' = callback_connects s @ [callback_target w a]"
    and "r \<noteq> Inr () \<longrightarrow> callback_connects s' = callback_connects s \<and>
           tls_connect w (target_port (callback_target w a)) (target_host (callback_target w a)) \<noteq> None"
proof -
  let ?t = "callback_target w a"
  let ?s1 = "s\<lparr>backoff := now\<rparr>"
  from assms obtain s2 where e: "ensureReverseConnections w ?t ?s1 = Some s2"
    by (auto simp: on_message_def Let_def split: option.splits)
  note k = ensure_keeps [OF e]
  from assms e k show "backoff s' = now"
    by (auto simp: on_message_def Let_def split: option.splits)
  from assms e k show "r = Inr () \<longrightarrow> callback_connects s' = callback_connects s @ [?t]"
    by (auto simp: on_message_def Let_def split: option.splits)
  from assms e k show "r \<noteq> Inr () \<longrightarrow> callback_connects s' = callback_connects s \<and>
           tls_connect w (target_port ?t) (target_host ?t) \<noteq> None"
    by (auto simp: on_message_def Let_def split: option.splits)
qed

lemma on_message_connects:
  assumes "pool_ok w s" and "\<not> now < backoff s + 5000"
    and "tls_connect w (target_port (callback_target w a)) (target_host (callback_target w a)) = None"
  shows "\<exists>s'. on_message w now (Callback a) s = Some (Inr (), s') \<and> backoff s' = now \<and>
           callback_connects s' = callback_connects s @ [callback_target w a] \<and>
           10 \<le> length (reverseConnections s')"
proof -
  let ?t = "callback_target w a"
  let ?s1 = "s\<lparr>backoff := now\<rparr>"
  have ok1: "pool_ok w ?s1" using assms(1) by (simp add: pool_ok_def)
  have acc: "accepted w ?t" using assms(3) by (simp add: accepted_def)
  from ensure_top_up [OF acc ok1] obtain s2 where
    s2: "ensureReverseConnections w ?t ?s1 = Some s2"
      "length (reverseConnections s2) = max 10 (length (reverseConnections ?s1))"
      "backoff s2 = backoff ?s1" "callback_connects s2 = callback_connects ?s1"
    by blast
  from s2 assms(2,3) show ?thesis by (simp add: on_message_def Let_def)
qed

lemma on_message_hangs:
  assumes "\<not> now < backoff s + 5000" and "length (reverseConnections s) < 10"
    and "tls_connect w (target_port (callback_target w a)) (target_host (callback_target w a)) \<noteq> None"
  shows "on_message w now (Callback a) s = None"
proof -
  from assms(3) obtain e where
    e: "tls_connect w (target_port (callback_target w a)) (target_host (callback_target w a)) = Some e"
    by auto
  have "ensureReverseConnections w (callback_target w a) (s\<lparr>backoff := now\<rparr>) = None"
    using assms(2) by (intro ensure_never [OF e]) simp
  with assms(1) show ?thesis by (simp add: on_message_def Let_def)
qed

text \<open>
  C10. A callback message that arrives less than 5000 ms after the recorded timestamp
  is dropped: the handler returns at once and nothing changes, no timestamp, no pool
  connection, no TLS connection to the relay. A callback message that is handled
  records \<open>Date.now()\<close> as the timestamp before anything else, so whenever its handler
  returns, with or without a connection, every further callback that arrives less than
  5000 ms later is dropped. A TLS connection to the relay is opened only by a handled
  callback, and it is opened whenever \<open>tls.connect\<close> accepts the address of the
  message. The timestamp starts at 0 and \<open>Date.now()\<close> counts the milliseconds since
  1970, so for every reading of the clock from 5000 on the first callback after startup
  passes the test: it is not dropped, and it opens its connection when \<open>tls.connect\<close>
  accepts the address.
\<close>

theorem callback_rate_limit:
  "(now < backoff s + 5000 \<longrightarrow> on_message w now (Callback a) s = Some (Inr (), s)) \<and>
   (\<not> now < backoff s + 5000 \<and> on_message w now (Callback a) s = Some (r, s') \<longrightarrow>
      backoff s' = now \<and>
      (r = Inr () \<longrightarrow> callback_connects s' = callback_connects s @ [callback_target w a]) \<and>
      (r \<noteq> Inr () \<longrightarrow> callback_connects s' = callback_connects s) \<and>
      (t1 < now + 5000 \<longrightarrow> on_message w t1 (Callback a') s' = Some (Inr (), s'))) \<and>
   (pool_ok w s \<and> \<not> now < backoff s + 5000 \<and>
    tls_connect w (target_port (callback_target w a)) (target_host (callback_target w a)) = None \<longrightarrow>
      (\<exists>s2. on_message w now (Callback a) s = Some (Inr (), s2) \<and> backoff s2 = now \<and>
         callback_connects s2 = callback_connects s @ [callback_target w a])) \<and>
   (5000 \<le> now \<longrightarrow>
      \<not> now < backoff initial_proxy + 5000 \<and>
      on_message w now (Callback a) initial_proxy \<noteq> Some (Inr (), initial_proxy)) \<and>
   (5000 \<le> now \<and>
    tls_connect w (target_port (callback_target w a)) (target_host (callback_target w a)) = None \<longrightarrow>
      (\<exists>s2. on_message w now (Callback a) initial_proxy = Some (Inr (), s2) \<and> backoff s2 = now \<and>
         callback_connects s2 = [callback_target w a]))"
proof -
  have dropped: "on_message w now (Callback a) s = Some (Inr (), s)" if "now < backoff s + 5000"
    using that by (rule on_message_dropped)
  have handled: "backoff s' = now \<and>
      (r = Inr () \<longrightarrow> callback_connects s' = callback_connects s @ [callback_target w a]) \<and>
      (r \<noteq> Inr () \<longrightarrow> callback_connects s' = callback_connects s) \<and>
      (t1 < now + 5000 \<longrightarrow> on_message w t1 (Callback a') s' = Some (Inr (), s'))"
    if h: "\<not> now < backoff s + 5000" "on_message w now (Callback a) s = Some (r, s')"
  proof -
    note m = on_message_handled [OF h]
    have "on_message w t1 (Callback a') s' = Some (Inr (), s')" if "t1 < now + 5000"
      using that m(1) by (intro on_message_dropped) simp
    with m show ?thesis by blast
  qed
  have connects: "\<exists>s2. on_message w now (Callback a) s = Some (Inr (), s2) \<and> backoff s2 = now \<and>
         callback_connects s2 = callback_connects s @ [callback_target w a]"
    if "pool_ok w s" "\<not> now < backoff s + 5000"
      "tls_connect w (target_port (callback_target w a)) (target_host (callback_target w a)) = None"
    using on_message_connects [OF that] by blast
  have b0: "\<not> now < backoff initial_proxy + 5000" if "5000 \<le> now"
    using that by (simp add: initial_proxy_def)
  have first: "on_message w now (Callback a) initial_proxy \<noteq> Some (Inr (), initial_proxy)"
    if "5000 \<le> now"
  proof
    assume eq: "on_message w now (Callback a) initial_proxy = Some (Inr (), initial_proxy)"
    from on_message_handled(1) [OF b0 [OF that] eq] that show False
      by (simp add: initial_proxy_def)
  qed
  have first_connects: "\<exists>s2. on_message w now (Callback a) initial_proxy = Some (Inr (), s2) \<and>
         backoff s2 = now \<and> callback_connects s2 = [callback_target w a]"
    if "5000 \<le> now"
      "tls_connect w (target_port (callback_target w a)) (target_host (callback_target w a)) = None"
  proof -
    have "callback_connects initial_proxy = []" by (simp add: initial_proxy_def)
    with on_message_connects [OF pool_ok_initial b0 [OF that(1)] that(2)] show ?thesis by auto
  qed
  from dropped handled connects b0 first first_connects show ?thesis by blast
qed


theorem callback_rate_limit_witness:
  "(5000::int) \<le> 1700000000000 \<and>
   callback_target example_world (Some ''relay.example.com:4001'') = relay_target \<and>
   tls_connect example_world (target_port relay_target) (target_host relay_target) = None \<and>
   on_message example_world 1700000000000 (Callback (Some ''relay.example.com:4001''))
     initial_proxy = Some (Inr (), after_callback) \<and>
   backoff after_callback = 1700000000000 \<and>
   callback_connects after_callback = [relay_target] \<and>
   (1700000004999::int) < 1700000000000 + 5000 \<and>
   on_message example_world 1700000004999 (Callback None) after_callback =
     Some (Inr (), after_callback) \<and>
   on_message example_world 1700000000000 (Callback (Some ''relay.example.com:4001''))
     initial_proxy \<noteq> Some (Inr (), initial_proxy) \<and>
   \<not> (1700000005000::int) < backoff after_callback + 5000 \<and>
   tls_connect example_world (target_port (callback_target example_world (Some ''relay.example.com'')))
     (target_host (callback_target example_world (Some ''relay.example.com''))) \<noteq> None \<and>
   on_message example_world 1700000005000 (Callback (Some ''relay.example.com'')) after_callback =
     Some (Inl (TypeError ''ERR_MISSING_ARGS''), after_callback\<lparr>backoff := 1700000005000\<rparr>) \<and>
   callback_connects (after_callback\<lparr>backoff := 1700000005000\<rparr>) = callback_connects after_callback"
proof -
  let ?a = "Some ''relay.example.com:4001''"
  have ev: "(5000::int) \<le> 1700000000000"
    "callback_target example_world ?a = relay_target"
    "tls_connect example_world (target_port relay_target) (target_host relay_target) = None"
    "tls_connect example_world (target_port (callback_target example_world ?a))
       (target_host (callback_target example_world ?a)) = None"
    "on_message example_world 1700000000000 (Callback ?a) initial_proxy =
       Some (Inr (), after_callback)"
    "\<not> (1700000000000::int) < backoff initial_proxy + 5000"
    "(1700000004999::int) < 1700000000000 + 5000"
    "\<not> (1700000005000::int) < backoff after_callback + 5000"
    "tls_connect example_world (target_port (callback_target example_world (Some ''relay.example.com'')))
       (target_host (callback_target example_world (Some ''relay.example.com''))) \<noteq> None"
    "on_message example_world 1700000005000 (Callback (Some ''relay.example.com'')) after_callback =
       Some (Inl (TypeError ''ERR_MISSING_ARGS''), after_callback\<lparr>backoff := 1700000005000\<rparr>)"
    by (simp_all add: on_message_def ensureReverseConnections.simps relay_defs)
  note first = callback_rate_limit [where now = 1700000000000 and s = initial_proxy
      and w = example_world and a = ?a and r = "Inr ()" and s' = after_callback
      and ?t1.0 = 1700000004999 and a' = None]
  note second = callback_rate_limit [where now = 1700000005000 and s = after_callback
      and w = example_world and a = "Some ''relay.example.com''"
      and r = "Inl (TypeError ''ERR_MISSING_ARGS'')"
      and s' = "after_callback\<lparr>backoff := 1700000005000\<rparr>"]
  from first ev have a: "backoff after_callback = 1700000000000"
    "callback_connects after_callback = callback_connects initial_proxy @ [callback_target example_world ?a]"
    "on_message example_world 1700000004999 (Callback None) after_callback =
       Some (Inr (), after_callback)"
    "on_message example_world 1700000000000 (Callback ?a) initial_proxy \<noteq>
       Some (Inr (), initial_proxy)"
    by blast+
  from second ev have b:
    "callback_connects (after_callback\<lparr>backoff := 1700000005000\<rparr>) = callback_connects after_callback"
    by blast
  have c: "callback_connects initial_proxy = []" by (simp add: initial_proxy_def)
  from a b c ev show ?thesis by simp
qed

section \<open>Properties of the whitelist cache\<close>

lemma whitelist_hit:
  "getSSLHostname w c = Inr None \<Longrightarrow> URL_pathname w u = Some p \<Longrightarrow>
   whitelisted c p = Some url \<Longrightarrow> whitelist w u ttl base c = (Inr url, c)"
  by (simp add: whitelist_def)

lemma whitelist_caches:
  "getSSLHostname w c = Inr None \<Longrightarrow> URL_pathname w u = Some p \<Longrightarrow>
   whitelist w u ttl base c = (Inr url, c1) \<Longrightarrow> whitelisted c1 p = Some url"
  by (auto simp: whitelist_def Let_def emit_def split: option.splits sum.splits if_splits)

lemma whitelist_keeps:
  "whitelisted c p = Some url \<Longrightarrow> whitelisted (snd (whitelist w x t b c)) p = Some url"
  by (auto simp: whitelist_def Let_def emit_def split: option.splits sum.splits)

lemma convert_keeps:
  "whitelisted c p = Some url \<Longrightarrow> whitelisted (snd (convert w x f m c)) p = Some url"
  by (auto simp: convert_def whitelist_keeps split: option.splits sum.splits)

lemma push_convert_keeps:
  "whitelisted c p = Some url \<Longrightarrow> whitelisted (snd (push_convert w x c)) p = Some url"
  by (auto simp: push_convert_def whitelist_keeps split: option.splits sum.splits)

lemma convert_hit:
  assumes "getSSLHostname w c = Inr None" and "URL_pathname w u = Some p"
    and "whitelisted c p = Some url"
    and "\<not> (truthy_str (cloudflareTunnel c) \<and> forwardingMode (storage c) \<noteq> CustomDomain \<and>
            short_lived w m)"
  shows "convert w u f m c = (Inr url, c)"
  using assms whitelist_hit [OF assms(1-3)]
  by (auto simp: convert_def getHostname_def)

lemma push_convert_hit:
  assumes "getSSLHostname w c = Inr None"
    and "URL_pathname w (''http://127.0.0.1/push/'' @ d) = Some p"
    and "whitelisted c p = Some url"
  shows "push_convert w d c = (Inr url, c)"
  using assms whitelist_hit [OF assms(1-3)]
  by (simp add: push_convert_def getHostname_def)

lemma sendRegistrationId_whitelisted:
  "whitelisted (snd (sendRegistrationId w rid frc c)) = whitelisted c"
  by (auto simp: sendRegistrationId_def getAuthority_def Let_def emit_def log_a_def
      split: sum.splits option.splits)

lemma resolve_ip_whitelisted: "whitelisted (snd (resolve_ip w c)) = whitelisted c"
  by (auto simp: resolve_ip_def Let_def emit_def split: sum.splits option.splits)

lemma after_registration_whitelisted:
  "whitelisted (snd (after_registration w ip data c)) = whitelisted c"
  by (auto simp: after_registration_def Let_def log_a_def split: sum.splits option.splits)

lemma updatePortForward_whitelisted:
  "whitelisted (snd (updatePortForward w p c)) = whitelisted c"
proof -
  let ?c = "c\<lparr>storage := (storage c)\<lparr>upnpPort := p\<rparr>\<rparr>"
  obtain r c1 where r: "resolve_ip w ?c = (r, c1)" by (cases "resolve_ip w ?c")
  from resolve_ip_whitelisted [of w ?c] r have e1: "whitelisted c1 = whitelisted c"
    by simp
  obtain r2 c2 where r2: "sendRegistrationId w (manager_registrationId w) False c1 = (r2, c2)"
    by (cases "sendRegistrationId w (manager_registrationId w) False c1")
  from sendRegistrationId_whitelisted [of w "manager_registrationId w" False c1] r2 e1
  have e2: "whitelisted c2 = whitelisted c" by simp
  show ?thesis
    using r r2 e1 e2
    by (auto simp: updatePortForward_def Let_def after_registration_whitelisted split: sum.splits)
qed

lemma refreshPortForward_whitelisted:
  "whitelisted (snd (refreshPortForward w c)) = whitelisted c"
  by (auto simp: refreshPortForward_def Let_def updatePortForward_whitelisted emit_def log_a_def
      split: option.splits)

text \<open>
  The claim C9 as written fails for \<open>convert\<close>. A quick tunnel is up (no tunnel token,
  so no SSL hostname) and the path \<open>/endpoint/x\<close> has been whitelisted. A later
  \<open>convert\<close> of the same local URL whose target type carries \<open>short-lived=true\<close>
  returns the tunnel URL, not the cached one.
\<close>

theorem whitelist_counterexample:
  "getSSLHostname example_world tunnel_cloud = Inr None \<and>
   fst (whitelist example_world ''http://127.0.0.1/endpoint/x'' TEN_YEARS_MS
          ''https://home.scrypted.app'' tunnel_cloud) =
     Inr ''https://home.scrypted.app/endpoint/x?user_token=ut&user_token_signature=sig'' \<and>
   getSSLHostname example_world whitelisted_tunnel_cloud = Inr None \<and>
   whitelisted whitelisted_tunnel_cloud ''/endpoint/x'' =
     Some ''https://home.scrypted.app/endpoint/x?user_token=ut&user_token_signature=sig'' \<and>
   fst (convert example_world ''http://127.0.0.1/endpoint/x'' ''text/x-uri''
          ''text/x-uri;short-lived=true'' whitelisted_tunnel_cloud) =
     Inr ''http://abc.trycloudflare.com/endpoint/x''"
  by code_simp

text \<open>
  C9, amended. Let \<open>whitelist\<close> succeed for a local URL of path \<open>p\<close> with no SSL
  hostname, returning \<open>url\<close>. Then \<open>url\<close> is cached under \<open>p\<close>. In any later state
  that still holds this entry: \<open>whitelist\<close>, both \<open>convert\<close> functions and
  \<open>refreshPortForward\<close> leave the entry as it is; and while no SSL hostname is
  configured, every \<open>whitelist\<close> call for a local URL of path \<open>p\<close>, whatever its ttl
  and base URL, every \<open>convert\<close> call for it that does not take the short-lived tunnel
  branch, and every push conversion that leads to \<open>p\<close>, return \<open>url\<close> and leave the
  state unchanged, so they make no relay call.
\<close>

theorem whitelist_cache_roundtrip:
  "getSSLHostname w c = Inr None \<Longrightarrow> URL_pathname w u = Some p \<Longrightarrow>
   whitelist w u ttl base c = (Inr url, c1) \<Longrightarrow>
   whitelisted c1 p = Some url \<and>
   (whitelisted c' p = Some url \<longrightarrow>
      whitelisted (snd (whitelist w' x t b c')) p = Some url \<and>
      whitelisted (snd (convert w' x f m c')) p = Some url \<and>
      whitelisted (snd (push_convert w' x c')) p = Some url \<and>
      whitelisted (snd (refreshPortForward w' c')) p = Some url \<and>
      (getSSLHostname w' c' = Inr None \<longrightarrow>
         (URL_pathname w' u' = Some p \<longrightarrow>
            whitelist w' u' t b c' = (Inr url, c') \<and>
            (\<not> (truthy_str (cloudflareTunnel c') \<and> forwardingMode (storage c') \<noteq> CustomDomain \<and>
                short_lived w' m) \<longrightarrow>
             convert w' u' f m c' = (Inr url, c'))) \<and>
         (URL_pathname w' (''http://127.0.0.1/push/'' @ d) = Some p \<longrightarrow>
            push_convert w' d c' = (Inr url, c'))))"
  using whitelist_caches [of w c u p ttl base url c1]
    whitelist_keeps [of c' p url w' x t b] convert_keeps [of c' p url w' x f m]
    push_convert_keeps [of c' p url w' x] refreshPortForward_whitelisted [of w' c']
    whitelist_hit [of w' c' u' p url t b] convert_hit [of w' c' u' p url m f]
    push_convert_hit [of w' c' d p url]
  by simp

theorem whitelist_cache_roundtrip_witness:
  "getSSLHostname example_world example_cloud = Inr None \<and>
   URL_pathname example_world ''http://127.0.0.1/endpoint/x'' = Some ''/endpoint/x'' \<and>
   fst (whitelist example_world ''http://127.0.0.1/endpoint/x'' TEN_YEARS_MS
          ''https://home.scrypted.app'' example_cloud) = Inr example_signed_url \<and>
   effects whitelisted_cloud =
     [RelayScope ''home.scrypted.app'' ''/endpoint/x'' 315360000000 ''bearer-token''] \<and>
   whitelisted whitelisted_cloud ''/endpoint/x'' = Some example_signed_url \<and>
   getSSLHostname example_world whitelisted_cloud = Inr None \<and>
   URL_pathname example_world ''https://localhost:10443/endpoint/x?a=1'' = Some ''/endpoint/x'' \<and>
   whitelist example_world ''https://localhost:10443/endpoint/x?a=1'' 60000
       ''https://other.example'' whitelisted_cloud = (Inr example_signed_url, whitelisted_cloud) \<and>
   \<not> short_lived example_world ''text/x-uri'' \<and>
   convert example_world ''https://localhost:10443/endpoint/x?a=1'' ''text/x-uri'' ''text/x-uri''
       whitelisted_cloud = (Inr example_signed_url, whitelisted_cloud) \<and>
   whitelisted (snd (push_convert example_world ''dev42'' whitelisted_cloud)) ''/endpoint/x'' =
     Some example_signed_url \<and>
   URL_pathname example_world (''http://127.0.0.1/push/'' @ ''dev42'') = Some ''/push/dev42'' \<and>
   fst (push_convert example_world ''dev42'' example_cloud) = Inr example_push_url \<and>
   push_convert example_world ''dev42'' pushed_cloud = (Inr example_push_url, pushed_cloud)"
proof -
  let ?u = "''http://127.0.0.1/endpoint/x''" and ?u' = "''https://localhost:10443/endpoint/x?a=1''"
  let ?v = "''http://127.0.0.1/push/dev42''"
  let ?b = "''https://home.scrypted.app/_punch/cloudmessage''"
  have h1: "getSSLHostname example_world example_cloud = Inr None"
    and h2: "URL_pathname example_world ?u = Some ''/endpoint/x''"
    and h3: "fst (whitelist example_world ?u TEN_YEARS_MS ''https://home.scrypted.app''
               example_cloud) = Inr example_signed_url"
    and e1: "effects whitelisted_cloud =
       [RelayScope ''home.scrypted.app'' ''/endpoint/x'' 315360000000 ''bearer-token'']"
    and h4: "getSSLHostname example_world whitelisted_cloud = Inr None"
    and h5: "URL_pathname example_world ?u' = Some ''/endpoint/x''"
    and h6: "\<not> short_lived example_world ''text/x-uri''"
    and p2: "URL_pathname example_world ?v = Some ''/push/dev42''"
    and p3: "fst (whitelist example_world ?v TEN_YEARS_MS ?b example_cloud) = Inr example_push_url"
    and p4: "getSSLHostname example_world pushed_cloud = Inr None"
    and p5: "fst (push_convert example_world ''dev42'' example_cloud) = Inr example_push_url"
    by code_simp+
  have h3': "whitelist example_world ?u TEN_YEARS_MS ''https://home.scrypted.app'' example_cloud =
      (Inr example_signed_url, whitelisted_cloud)"
    using h3 by (simp add: prod_eq_iff whitelisted_cloud_def)
  have p3': "whitelist example_world ?v TEN_YEARS_MS ?b example_cloud =
      (Inr example_push_url, pushed_cloud)"
    using p3 by (simp add: prod_eq_iff pushed_cloud_def)
  have p2': "URL_pathname example_world (''http://127.0.0.1/push/'' @ ''dev42'') = Some ''/push/dev42''"
    using p2 by simp
  from whitelist_cache_roundtrip [OF h1 h2 h3', where c' = whitelisted_cloud
      and w' = example_world and x = "''dev42''" and u' = ?u' and t = 60000
      and b = "''https://other.example''" and f = "''text/x-uri''" and m = "''text/x-uri''"]
    whitelist_cache_roundtrip [OF h1 p2 p3', where c' = pushed_cloud
      and w' = example_world and d = "''dev42''"]
    h1 h2 h3 e1 h4 h5 h6 p2' p4 p5
  show ?thesis by blast
qed

section \<open>The bound of the JSON parser\<close>

text \<open>
  Every successful parse consumes input, so the bound \<open>JSON_parse\<close> starts with is
  never reached: starting with any larger bound gives the same result. A result
  \<open>None\<close> is therefore a syntax error, never an exhausted bound.
\<close>

lemma skip_ws_length: "length (skip_ws s) \<le> length s"
  by (simp add: skip_ws_def length_dropWhile_le)

lemma skip_ws_Cons: "skip_ws s = c # r \<Longrightarrow> length r < length s"
  using skip_ws_length [of s] by simp

lemma parse_chars_shorter: "parse_chars r = Some (x, rest) \<Longrightarrow> length rest < length r"
proof (induction r arbitrary: x rest rule: parse_chars.induct)
  case 1
  then show ?case by simp
next
  case (2 c)
  then show ?case by (simp split: if_splits)
next
  case (3 c e r)
  show ?case
  proof (cases "c = dquote")
    case True
    with "3.prems" show ?thesis by simp
  next
    case nq: False
    show ?thesis
    proof (cases "c = backslash")
      case bs: True
      show ?thesis
      proof (cases "e = CHR ''u''")
        case True
        with nq bs "3.prems" obtain n y where h: "hex4 (take 4 r) = Some n"
          and p: "parse_chars (drop 4 r) = Some (y, rest)"
          by (auto split: option.splits)
        from "3.IH"(1) [OF nq bs True h p] show ?thesis by simp
      next
        case False
        with nq bs "3.prems" obtain d y where u: "unescape e = Some d"
          and p: "parse_chars r = Some (y, rest)"
          by (auto split: option.splits)
        from "3.IH"(2) [OF nq bs False u p] show ?thesis by simp
      qed
    next
      case False
      with nq "3.prems" obtain y where lt: "\<not> of_char c < (32::nat)"
        and p: "parse_chars (e # r) = Some (y, rest)"
        by (auto split: option.splits if_splits)
      from "3.IH"(3) [OF nq False lt p] show ?thesis by simp
    qed
  qed
qed

lemma take_digits_length: "take_digits s = (a, b) \<Longrightarrow> length a + length b = length s"
proof -
  assume "take_digits s = (a, b)"
  then have "a @ b = s" by (auto simp: take_digits_def)
  then show ?thesis by (metis length_append)
qed

lemma take_int_shorter: "take_int s = Some (i, r) \<Longrightarrow> length r < length s"
proof -
  assume a: "take_int s = Some (i, r)"
  obtain ds r0 where t: "take_digits s = (ds, r0)" by (cases "take_digits s")
  with a obtain d ds' where ds: "ds = d # ds'" by (cases ds) (auto simp: take_int_def)
  from a t ds have "r = ds' @ r0 \<or> r = r0" by (auto simp: take_int_def split: if_splits)
  with take_digits_length [OF t] ds show ?thesis by auto
qed

lemma take_frac_shorter: "take_frac s = Some (f, r) \<Longrightarrow> length r \<le> length s"
proof (cases s)
  case Nil
  assume "take_frac s = Some (f, r)"
  with Nil show ?thesis by (simp add: take_frac_def)
next
  case (Cons c t)
  assume a: "take_frac s = Some (f, r)"
  obtain ds r0 where t: "take_digits t = (ds, r0)" by (cases "take_digits t")
  from a Cons t have "r = s \<or> r = r0"
    by (auto simp: take_frac_def split: if_splits list.splits)
  with take_digits_length [OF t] Cons show ?thesis by auto
qed

lemma take_exp_shorter: "take_exp s = Some (e, r) \<Longrightarrow> length r \<le> length s"
proof (cases s)
  case Nil
  assume "take_exp s = Some (e, r)"
  with Nil show ?thesis by (simp add: take_exp_def)
next
  case (Cons c t)
  assume a: "take_exp s = Some (e, r)"
  let ?sgn = "(if take 1 t = ''+'' \<or> take 1 t = ''-'' then take 1 t else [])"
  obtain ds r0 where t: "take_digits (drop (length ?sgn) t) = (ds, r0)"
    by (cases "take_digits (drop (length ?sgn) t)")
  from a Cons t have "r = s \<or> r = r0"
    by (auto simp: take_exp_def Let_def split: if_splits list.splits)
  moreover have "length r0 \<le> length t" using take_digits_length [OF t] by simp
  ultimately show ?thesis using Cons by auto
qed

lemma take_number_shorter: "take_number s = Some (x, r) \<Longrightarrow> length r < length s"
proof -
  assume a: "take_number s = Some (x, r)"
  let ?sgn = "(if take 1 s = ''-'' then ''-'' else [])"
  let ?s1 = "drop (length ?sgn) s"
  from a obtain i s2 f s3 e where i: "take_int ?s1 = Some (i, s2)"
    and f: "take_frac s2 = Some (f, s3)" and e: "take_exp s3 = Some (e, r)"
    by (auto simp: take_number_def Let_def split: option.splits)
  from take_int_shorter [OF i] take_frac_shorter [OF f] take_exp_shorter [OF e]
  have "length r < length ?s1" by simp
  then show ?thesis by simp
qed

lemma parse_shorter:
  "parse_value n s = Some (v, rest) \<Longrightarrow> length rest < length s"
  "parse_elements n s = Some (vs, rest') \<Longrightarrow> length rest' < length s"
  "parse_members n s = Some (ms, rest'') \<Longrightarrow> length rest'' < length s"
proof (induction n s and n s and n s arbitrary: v rest and vs rest' and ms rest''
    rule: parse_value_parse_elements_parse_members.induct)
  case (1 s)
  then show ?case by simp
next
  case (2 n s)
  from "2.prems" obtain c r where sk: "skip_ws s = c # r"
    by (cases "skip_ws s") auto
  note len = skip_ws_Cons [OF sk]
  have drop1: "length (drop 1 (skip_ws r)) < length s"
    using len skip_ws_length [of r] by simp
  consider (obj) "c = CHR ''{''" | (arr) "c \<noteq> CHR ''{''" "c = CHR ''[''"
    | (other) "c \<noteq> CHR ''{''" "c \<noteq> CHR ''[''" by blast
  then show ?case
  proof cases
    case obj
    show ?thesis
    proof (cases "take 1 (skip_ws r) = ''}''")
      case True
      with "2.prems" sk obj drop1 show ?thesis by auto
    next
      case False
      with "2.prems" sk obj obtain ms where "parse_members n r = Some (ms, rest)"
        by auto
      from "2.IH"(1) [OF sk obj False this] len show ?thesis by simp
    qed
  next
    case arr
    show ?thesis
    proof (cases "take 1 (skip_ws r) = '']''")
      case True
      with "2.prems" sk arr drop1 show ?thesis by auto
    next
      case False
      with "2.prems" sk arr obtain vs where "parse_elements n r = Some (vs, rest)"
        by auto
      from "2.IH"(2) [OF sk arr(1) arr(2) False this] len show ?thesis by simp
    qed
  next
    case other
    show ?thesis
    proof (cases "c = dquote")
      case True
      with "2.prems" sk other obtain x where "parse_chars r = Some (x, rest)" by auto
      from parse_chars_shorter [OF this] len show ?thesis by simp
    next
      case False
      from "2.prems" sk other False
      have "rest = drop 3 r \<or> rest = drop 4 r \<or> (\<exists>x. take_number (c # r) = Some (x, rest))"
        by (auto split: if_splits)
      then show ?thesis
        using len by (auto dest: take_number_shorter)
    qed
  qed
next
  case (3 s)
  then show ?case by simp
next
  case (4 n s)
  from "4.prems" obtain v r where pv: "parse_value n s = Some (v, r)"
    by (auto split: option.splits)
  from "4.IH"(1) [OF pv] have l1: "length r < length s" .
  from "4.prems" pv obtain c r' where sk: "skip_ws r = c # r'"
    by (cases "skip_ws r") auto
  note l2 = skip_ws_Cons [OF sk]
  show ?case
  proof (cases "c = CHR '',''")
    case True
    with "4.prems" pv sk obtain vs' where pe: "parse_elements n r' = Some (vs', rest')"
      by auto
    from "4.IH"(2) [OF pv refl sk True pe] l1 l2 show ?thesis by simp
  next
    case False
    with "4.prems" pv sk have "rest' = r'" by (auto split: if_splits)
    with l1 l2 show ?thesis by simp
  qed
next
  case (5 s)
  then show ?case by simp
next
  case (6 n s)
  from "6.prems" obtain q r where sk: "skip_ws s = q # r" by (cases "skip_ws s") auto
  from "6.prems" sk have q: "\<not> q \<noteq> dquote" by (auto split: if_splits)
  from "6.prems" sk q obtain k r1 where pc: "parse_chars r = Some (k, r1)"
    by (auto split: option.splits)
  from "6.prems" sk q pc obtain c r2 where sk1: "skip_ws r1 = c # r2"
    by (cases "skip_ws r1") auto
  from "6.prems" sk q pc sk1 have c: "\<not> c \<noteq> CHR '':''" by (auto split: if_splits)
  from "6.prems" sk q pc sk1 c obtain v r3 where pv: "parse_value n r2 = Some (v, r3)"
    by (auto split: option.splits)
  from "6.prems" sk q pc sk1 c pv obtain d r4 where sk3: "skip_ws r3 = d # r4"
    by (cases "skip_ws r3") auto
  have l: "length r4 < length s"
    using skip_ws_Cons [OF sk] parse_chars_shorter [OF pc] skip_ws_Cons [OF sk1]
      "6.IH"(1) [OF sk q pc refl sk1 c pv] skip_ws_Cons [OF sk3]
    by simp
  show ?case
  proof (cases "d = CHR '',''")
    case True
    with "6.prems" sk q pc sk1 c pv sk3 obtain ms' where
      pm: "parse_members n r4 = Some (ms', rest'')" by auto
    from "6.IH"(2) [OF sk q pc refl sk1 c pv refl sk3 True pm] l show ?thesis by simp
  next
    case False
    with "6.prems" sk q pc sk1 c pv sk3 have "rest'' = r4" by (auto split: if_splits)
    with l show ?thesis by simp
  qed
qed

lemma fuel_enough_all:
  "(\<forall>n m. 2 * length s + 1 \<le> n \<longrightarrow> 2 * length s + 1 \<le> m \<longrightarrow>
      parse_value n s = parse_value m s) \<and>
   (\<forall>n m. 2 * length s + 2 \<le> n \<longrightarrow> 2 * length s + 2 \<le> m \<longrightarrow>
      parse_elements n s = parse_elements m s) \<and>
   (\<forall>n m. 2 * length s + 2 \<le> n \<longrightarrow> 2 * length s + 2 \<le> m \<longrightarrow>
      parse_members n s = parse_members m s)"
proof (induction "length s" arbitrary: s rule: less_induct)
  case less
  have ihE: "parse_elements n t = parse_elements m t"
    if "length t < length s" "2 * length t + 2 \<le> n" "2 * length t + 2 \<le> m" for t n m
    using less [OF that(1)] that(2,3) by blast
  have ihM: "parse_members n t = parse_members m t"
    if "length t < length s" "2 * length t + 2 \<le> n" "2 * length t + 2 \<le> m" for t n m
    using less [OF that(1)] that(2,3) by blast
  have ihV: "parse_value n t = parse_value m t"
    if "length t < length s" "2 * length t + 1 \<le> n" "2 * length t + 1 \<le> m" for t n m
    using less [OF that(1)] that(2,3) by blast
  have V: "parse_value n s = parse_value m s"
    if b: "2 * length s + 1 \<le> n" "2 * length s + 1 \<le> m" for n m
  proof -
    from b obtain n' m' where nm: "n = Suc n'" "m = Suc m'"
      by (cases n; cases m) auto
    show ?thesis
    proof (cases "skip_ws s")
      case Nil
      then show ?thesis by (simp add: nm)
    next
      case (Cons c r)
      have lr: "length r < length s" by (rule skip_ws_Cons [OF Cons])
      have m: "parse_members n' r = parse_members m' r"
        using b nm lr by (intro ihM) simp_all
      have e: "parse_elements n' r = parse_elements m' r"
        using b nm lr by (intro ihE) simp_all
      show ?thesis by (simp add: nm Cons m e)
    qed
  qed
  have E: "parse_elements n s = parse_elements m s"
    if b: "2 * length s + 2 \<le> n" "2 * length s + 2 \<le> m" for n m
  proof -
    from b obtain n' m' where nm: "n = Suc n'" "m = Suc m'"
      by (cases n; cases m) auto
    have v: "parse_value n' s = parse_value m' s" using b nm by (intro V) simp_all
    show ?thesis
    proof (cases "parse_value m' s")
      case None
      with v show ?thesis by (simp add: nm)
    next
      case (Some a)
      obtain x r where a: "a = (x, r)" by (cases a)
      from parse_shorter(1) [of m' s x r] Some a have l1: "length r < length s" by simp
      show ?thesis
      proof (cases "skip_ws r")
        case Nil
        with v Some a show ?thesis by (simp add: nm)
      next
        case (Cons c r')
        have l2: "length r' < length s" using skip_ws_Cons [OF Cons] l1 by simp
        have "parse_elements n' r' = parse_elements m' r'"
          using b nm l2 by (intro ihE) simp_all
        with v Some a Cons show ?thesis by (simp add: nm)
      qed
    qed
  qed
  have M: "parse_members n s = parse_members m s"
    if b: "2 * length s + 2 \<le> n" "2 * length s + 2 \<le> m" for n m
  proof -
    from b obtain n' m' where nm: "n = Suc n'" "m = Suc m'"
      by (cases n; cases m) auto
    show ?thesis
    proof (cases "skip_ws s")
      case Nil
      then show ?thesis by (simp add: nm)
    next
      case s0: (Cons q r)
      have l0: "length r < length s" by (rule skip_ws_Cons [OF s0])
      show ?thesis
      proof (cases "parse_chars r")
        case None
        with s0 show ?thesis by (simp add: nm)
      next
        case (Some a)
        obtain k r1 where a: "a = (k, r1)" by (cases a)
        from parse_chars_shorter [of r k r1] Some a have l1: "length r1 < length s"
          using l0 by simp
        show ?thesis
        proof (cases "skip_ws r1")
          case Nil
          with s0 Some a show ?thesis by (simp add: nm)
        next
          case s1: (Cons c r2)
          have l2: "length r2 < length s" using skip_ws_Cons [OF s1] l1 by simp
          have v: "parse_value n' r2 = parse_value m' r2"
            using b nm l2 by (intro ihV) simp_all
          show ?thesis
          proof (cases "parse_value m' r2")
            case None
            with v s0 Some a s1 show ?thesis by (simp add: nm)
          next
            case pv: (Some a')
            obtain x r3 where a': "a' = (x, r3)" by (cases a')
            from parse_shorter(1) [of m' r2 x r3] pv a' l2
            have l3: "length r3 < length s" by simp
            show ?thesis
            proof (cases "skip_ws r3")
              case Nil
              with v s0 Some a s1 pv a' show ?thesis by (simp add: nm)
            next
              case s3: (Cons d r4)
              have l4: "length r4 < length s" using skip_ws_Cons [OF s3] l3 by simp
              have "parse_members n' r4 = parse_members m' r4"
                using b nm l4 by (intro ihM) simp_all
              with v s0 Some a s1 pv a' s3 show ?thesis by (simp add: nm)
            qed
          qed
        qed
      qed
    qed
  qed
  from V E M show ?case by blast
qed

lemma JSON_parse_fuel:
  "2 * length s + 2 \<le> n \<Longrightarrow> parse_value n s = parse_value (2 * length s + 2) s"
proof -
  assume "2 * length s + 2 \<le> n"
  then have a: "2 * length s + 1 \<le> n" by simp
  have b: "2 * length s + 1 \<le> 2 * length s + 2" by simp
  from fuel_enough_all [of s] a b show ?thesis by blast
qed

section \<open>Properties of hostname discovery\<close>





end
